theory Spec2Isabelle
  imports Main
begin

section \<open>Python values the WPS client works with\<close>

text \<open>
  The module \<^verbatim>\<open>owslib/wps.py\<close> is Python 2. A Python attribute that may be
  \<^verbatim>\<open>None\<close> is an \<open>option\<close>; a \<^verbatim>\<open>raise\<close> (explicit, or from indexing a
  list out of range, or from reading an attribute of \<^verbatim>\<open>None\<close>) is the left
  injection of a sum. \<^verbatim>\<open>print\<close> statements and the \<^verbatim>\<open>dump\<close> calls guarded by
  \<^verbatim>\<open>verbose\<close> write to the console only and are left out.
\<close>

datatype error =
    IndexError
  | AttributeError
  | ValueError
  | NotImplementedError
  | UnknownStatus "string option"
  | NotSuccessful "string option"
  | UnrecognizedMethod string
  | TransportError
  | XMLSyntaxError
  | IOError
  | SleepError

text \<open>\<^verbatim>\<open>s.split(c)\<close> for a one-character separator: a cut at every occurrence,
  so the result has one piece more than there are separators and is never empty.\<close>

fun split_str :: "char \<Rightarrow> string \<Rightarrow> string list" where
  "split_str c [] = [[]]"
| "split_str c (x # xs) =
     (if x = c then [] # split_str c xs
      else (case split_str c xs of
              p # ps \<Rightarrow> (x # p) # ps
            | [] \<Rightarrow> [[x]]))"

text \<open>\<^verbatim>\<open>xs[i]\<close> for a literal index \<open>i \<ge> 0\<close>, and \<^verbatim>\<open>xs[-1]\<close>.\<close>

definition index :: "'a list \<Rightarrow> nat \<Rightarrow> error + 'a" where
  "index xs i = (if i < length xs then Inr (xs ! i) else Inl IndexError)"

definition index_last :: "'a list \<Rightarrow> error + 'a" where
  "index_last xs = (case xs of [] \<Rightarrow> Inl IndexError | _ \<Rightarrow> Inr (last xs))"

section \<open>Element trees\<close>

text \<open>
  An \<^verbatim>\<open>etree\<close> element: its tag in the \<^verbatim>\<open>{namespace}local\<close> form the library
  uses, its attributes, its text (\<^verbatim>\<open>None\<close> when there is none) and its child
  elements in document order.
\<close>

datatype element =
  Element (tag: string) (attrib: "(string \<times> string) list") (etext: "string option")
          (children: "element list")

text \<open>\<^verbatim>\<open>el.get(name)\<close> and \<^verbatim>\<open>el.attrib.get(name, None)\<close>.\<close>

definition get :: "element \<Rightarrow> string \<Rightarrow> string option" where
  "get el name = map_of (attrib el) name"

text \<open>
  The paths handed to \<^verbatim>\<open>find\<close> and \<^verbatim>\<open>findall\<close> in this module are sequences of
  steps separated by \<^verbatim>\<open>/\<close>, each a tag or the wildcard \<^verbatim>\<open>*\<close>; a path is kept as
  the list of its steps. A step selects, among the children of every element reached
  so far, those it matches, in document order.
\<close>

datatype step = Tag string | Star

fun matches :: "step \<Rightarrow> element \<Rightarrow> bool" where
  "matches (Tag t) el = (tag el = t)"
| "matches Star el = True"

fun findall_from :: "element list \<Rightarrow> step list \<Rightarrow> element list" where
  "findall_from els [] = els"
| "findall_from els (s # path) =
     findall_from (concat (map (\<lambda>el. filter (matches s) (children el)) els)) path"

definition findall :: "element \<Rightarrow> step list \<Rightarrow> element list" where
  "findall el path = findall_from [el] path"

definition find_elem :: "element \<Rightarrow> step list \<Rightarrow> element option" where
  "find_elem el path = (case findall el path of [] \<Rightarrow> None | x # _ \<Rightarrow> Some x)"

subsection \<open>Helpers of the package that the module imports\<close>

text \<open>
  Modelled from the spec: \<^verbatim>\<open>util.nspath\<close> and \<^verbatim>\<open>wps_utils.parseText\<close> are imported by
  the module and not part of it. The specification has lookups by "namespace-qualified
  tag" and an "element lookup by qualified name": \<open>nspath\<close> qualifies every step of a
  path except the wildcard with one namespace (\<open>qname\<close> is the qualified form of one
  name, which the module also uses for the name of an attribute); \<open>parseText\<close> is the
  text of an element that was found, and \<^verbatim>\<open>None\<close> when none was.
\<close>

definition qname :: "string \<Rightarrow> string \<Rightarrow> string" where
  "qname ns name = ''{'' @ ns @ ''}'' @ name"

definition nspath :: "string list \<Rightarrow> string \<Rightarrow> step list" where
  "nspath path ns = map (\<lambda>c. if c = ''*'' then Star else Tag (qname ns c)) path"

definition parseText :: "element option \<Rightarrow> string option" where
  "parseText el = (case el of None \<Rightarrow> None | Some x \<Rightarrow> etext x)"

text \<open>
  The namespaces \<^verbatim>\<open>DEFAULT_OWS_NAMESPACE\<close>, \<^verbatim>\<open>XSI_NAMESPACE\<close> and
  \<^verbatim>\<open>XLINK_NAMESPACE\<close> come from \<^verbatim>\<open>owslib.ows\<close>; they are parameters here.
\<close>

record ows_constants =
  DEFAULT_OWS_NAMESPACE :: string
  XSI_NAMESPACE :: string
  XLINK_NAMESPACE :: string

definition WPS_NAMESPACE :: string where
  "WPS_NAMESPACE = ''http://www.opengis.net/wps/1.0.0''"

definition WPS_SCHEMA_LOCATION :: string where
  "WPS_SCHEMA_LOCATION = ''http://schemas.opengis.net/wps/1.0.0/wpsExecute_request.xsd''"

definition WPS_DEFAULT_VERSION :: string where
  "WPS_DEFAULT_VERSION = ''1.0.0''"

definition WFS_NAMESPACE :: string where
  "WFS_NAMESPACE = ''http://www.opengis.net/wfs''"

definition OGC_NAMESPACE :: string where
  "OGC_NAMESPACE = ''http://www.opengis.net/ogc''"

definition GML_NAMESPACE :: string where
  "GML_NAMESPACE = ''http://www.opengis.net/gml''"

text \<open>The dictionary \<^verbatim>\<open>namespaces\<close> of the module (its key \<^verbatim>\<open>None\<close> is never
  looked up through a prefix).\<close>

definition namespaces :: "ows_constants \<Rightarrow> string \<rightharpoonup> string" where
  "namespaces c = map_of
     [(''wps'', WPS_NAMESPACE),
      (''ows'', DEFAULT_OWS_NAMESPACE c),
      (''xlink'', XLINK_NAMESPACE c),
      (''xsi'', XSI_NAMESPACE c),
      (''wfs'', WFS_NAMESPACE),
      (''ogc'', OGC_NAMESPACE),
      (''gml'', GML_NAMESPACE)]"

text \<open>
  Modelled from the spec: \<^verbatim>\<open>util.nspath_eval\<close>, imported and not part of the module, gives
  the "namespace-qualified tag" for a \<^verbatim>\<open>prefix:name\<close> and a dictionary of namespaces;
  the prefix and the name are passed apart here. Every prefix the module passes is a key
  of \<open>namespaces\<close>.
\<close>

definition nspath_eval :: "string \<Rightarrow> string \<Rightarrow> (string \<rightharpoonup> string) \<Rightarrow> string" where
  "nspath_eval prefix name nss = qname (case nss prefix of Some ns \<Rightarrow> ns | None \<Rightarrow> []) name"

section \<open>The data model\<close>

record ComplexData =
  cd_mimeType :: "string option"
  cd_encoding :: "string option"
  cd_schema :: "string option"

text \<open>
  What an allowed or default value can be: the result of \<^verbatim>\<open>getTypedValue\<close> (a
  boolean, an integer, a float, a string, or the text as it was read, which may be
  \<^verbatim>\<open>None\<close>) or a \<open>ComplexData\<close>. A float is kept as the text it was read from.
\<close>

datatype pyvalue =
    PyNone
  | PyBool bool
  | PyInt int
  | PyFloat string
  | PyStr string
  | PyComplexData ComplexData

record InputOutput =
  io_identifier :: "string option"
  io_title :: "string option"
  io_abstract :: "string option"
  allowedValues :: "pyvalue list"
  supportedValues :: "ComplexData list"
  defaultValue :: pyvalue
  dataType :: "string option"

record Input = InputOutput +
  minOccurs :: int
  maxOccurs :: int

record Output = InputOutput +
  reference :: "string option"
  mimeType :: "string option"
  data :: "string option"

record WPSException =
  exc_code :: "string option"
  exc_locator :: "string option"
  exc_text :: "string option"

record Process =
  processVersion :: "string option"
  statusSupported :: bool
  storeSupported :: bool
  process_identifier :: "string option"
  process_title :: "string option"
  process_abstract :: "string option"
  process_dataInputs :: "Input list"
  process_processOutputs :: "Output list"

record WPSExecution =
  url :: "string option"
  version :: string
  username :: "string option"
  password :: "string option"
  verbose :: bool
  process :: "Process option"
  serviceInstance :: "string option"
  status :: "string option"
  errors :: "WPSException list"
  statusLocation :: "string option"
  dataInputs :: "Input list"
  processOutputs :: "Output list"

section \<open>The collaborators\<close>

text \<open>
  What the module calls and does not define: \<^verbatim>\<open>wps_utils.getTypedValue\<close> and
  \<^verbatim>\<open>wps_utils.build_get_url\<close>, the transport \<^verbatim>\<open>util.openURL\<close> (here together with
  the \<^verbatim>\<open>read()\<close> of what it returns: the bytes of the response, or an error), the
  XML parser \<^verbatim>\<open>etree.fromstring\<close>, and whether \<^verbatim>\<open>open(path, 'wb')\<close> succeeds.
  They are parameters. A request parameter set is a dictionary for GET and a document
  for POST.
\<close>

datatype request_data = Dict "(string \<times> string) list" | Str string

record environment =
  ows :: ows_constants
  getTypedValue :: "string \<Rightarrow> string option \<Rightarrow> error + pyvalue"
  build_get_url :: "string option \<Rightarrow> request_data \<Rightarrow> error + string"
  openURL :: "string option \<Rightarrow> request_data \<Rightarrow> string \<Rightarrow> string option \<Rightarrow> string option
              \<Rightarrow> error + string"
  fromstring :: "string \<Rightarrow> error + element"
  can_open_wb :: "string \<Rightarrow> bool"

text \<open>What a call does to the outside, in the order it does it.\<close>

datatype event =
    HttpRequest "string option" request_data string
  | FileWrite string string
  | Sleep int

section \<open>Built-in conversions\<close>

text \<open>\<^verbatim>\<open>bool(x)\<close> for \<open>x\<close> a string or \<^verbatim>\<open>None\<close>.\<close>

definition py_bool :: "string option \<Rightarrow> bool" where
  "py_bool v = (case v of None \<Rightarrow> False | Some s \<Rightarrow> s \<noteq> [])"

text \<open>\<^verbatim>\<open>int(s)\<close> for a string: surrounding white space is dropped, then an optional
  sign and at least one decimal digit; anything else is a \<^verbatim>\<open>ValueError\<close>.\<close>

definition is_space :: "char \<Rightarrow> bool" where
  "is_space c = (c \<in> set [CHR '' '', CHR 0x09, CHR 0x0A, CHR 0x0B, CHR 0x0C, CHR 0x0D])"

definition strip :: "string \<Rightarrow> string" where
  "strip s = rev (dropWhile is_space (rev (dropWhile is_space s)))"

definition is_digit :: "char \<Rightarrow> bool" where
  "is_digit c = (c \<in> set ''0123456789'')"

definition digits_value :: "string \<Rightarrow> int" where
  "digits_value ds = foldl (\<lambda>a c. 10 * a + (int (of_char c) - 48)) 0 ds"

definition py_int :: "string \<Rightarrow> error + int" where
  "py_int s =
     (let t = strip s;
          (sgn, ds) = (case t of
                         c # r \<Rightarrow> (if c = CHR ''-'' then (- 1, r)
                                   else if c = CHR ''+'' then (1, r) else (1, t))
                       | [] \<Rightarrow> (1, t))
      in if ds \<noteq> [] \<and> list_all is_digit ds then Inr (sgn * digits_value ds)
         else Inl ValueError)"

text \<open>A loop that builds one object per element and stops at the first that raises.\<close>

fun try_map :: "('a \<Rightarrow> error + 'b) \<Rightarrow> 'a list \<Rightarrow> error + 'b list" where
  "try_map f [] = Inr []"
| "try_map f (x # xs) =
     (case f x of
        Inl e \<Rightarrow> Inl e
      | Inr y \<Rightarrow> (case try_map f xs of Inl e \<Rightarrow> Inl e | Inr ys \<Rightarrow> Inr (y # ys)))"

section \<open>Parsing inputs, outputs, processes and exceptions\<close>

text \<open>\<^verbatim>\<open>InputOutput.__init__\<close>; \<open>ext\<close> is what a subclass adds.\<close>

definition InputOutput_init :: "environment \<Rightarrow> element \<Rightarrow> 'a \<Rightarrow> 'a InputOutput_scheme" where
  "InputOutput_init env element ext =
     \<lparr> io_identifier =
         parseText (find_elem element (nspath [''Identifier''] (DEFAULT_OWS_NAMESPACE (ows env)))),
       io_title =
         parseText (find_elem element (nspath [''Title''] (DEFAULT_OWS_NAMESPACE (ows env)))),
       io_abstract =
         parseText (find_elem element (nspath [''Abstract''] (DEFAULT_OWS_NAMESPACE (ows env)))),
       allowedValues = [],
       supportedValues = [],
       defaultValue = PyNone,
       dataType = None,
       \<dots> = ext \<rparr>"

text \<open>\<^verbatim>\<open>InputOutput._parseLiteralData\<close>. The attribute read off \<^verbatim>\<open>DataType\<close> is
  \<^verbatim>\<open>reference\<close> qualified with the OWS namespace.\<close>

definition parseLiteralData ::
  "environment \<Rightarrow> 'a InputOutput_scheme \<Rightarrow> element \<Rightarrow> step list \<Rightarrow> error + 'a InputOutput_scheme"
where
  "parseLiteralData env self element literalElementName =
     (case find_elem element literalElementName of
        None \<Rightarrow> Inr self
      | Some literalDataElement \<Rightarrow>
          (case find_elem literalDataElement
                  (nspath [''DataType''] (DEFAULT_OWS_NAMESPACE (ows env))) of
             None \<Rightarrow> Inl AttributeError
           | Some dataTypeElement \<Rightarrow>
               (case get dataTypeElement (qname (DEFAULT_OWS_NAMESPACE (ows env)) ''reference'') of
                  None \<Rightarrow> Inl AttributeError
                | Some r \<Rightarrow>
                    (case index (split_str CHR '':'' r) 1 of
                       Inl e \<Rightarrow> Inl e
                     | Inr dt \<Rightarrow>
                         (case try_map (\<lambda>v. getTypedValue env dt (etext v))
                                 (findall literalDataElement
                                    (nspath [''AllowedValues'', ''Value'']
                                       (DEFAULT_OWS_NAMESPACE (ows env)))) of
                            Inl e \<Rightarrow> Inl e
                          | Inr vs \<Rightarrow>
                              (let self1 = self\<lparr>dataType := Some dt,
                                                 allowedValues := allowedValues self @ vs\<rparr>
                               in case find_elem literalDataElement [Tag ''DefaultValue''] of
                                    None \<Rightarrow> Inr self1
                                  | Some dv \<Rightarrow>
                                      (case getTypedValue env dt (etext dv) of
                                         Inl e \<Rightarrow> Inl e
                                       | Inr v \<Rightarrow> Inr (self1\<lparr>defaultValue := v\<rparr>))))))))"

definition ComplexData_of_format :: "element \<Rightarrow> ComplexData" where
  "ComplexData_of_format formatElement =
     \<lparr> cd_mimeType = parseText (find_elem formatElement [Tag ''MimeType'']),
       cd_encoding = parseText (find_elem formatElement [Tag ''Encoding'']),
       cd_schema = parseText (find_elem formatElement [Tag ''Schema'']) \<rparr>"

text \<open>\<^verbatim>\<open>InputOutput._parseComplexData\<close>.\<close>

definition parseComplexData ::
  "'a InputOutput_scheme \<Rightarrow> element \<Rightarrow> step list \<Rightarrow> 'a InputOutput_scheme"
where
  "parseComplexData self element complexDataElementName =
     (case find_elem element complexDataElementName of
        None \<Rightarrow> self
      | Some complexDataElement \<Rightarrow>
          (let self1 = self\<lparr>dataType := Some ''ComplexData'',
                             supportedValues := supportedValues self @
                               map ComplexData_of_format
                                 (findall complexDataElement [Tag ''Supported'', Tag ''Format''])\<rparr>
           in case find_elem complexDataElement [Tag ''Default'', Tag ''Format''] of
                None \<Rightarrow> self1
              | Some defaultFormatElement \<Rightarrow>
                  self1\<lparr>defaultValue := PyComplexData (ComplexData_of_format defaultFormatElement)\<rparr>))"

text \<open>\<^verbatim>\<open>Input.__init__\<close>.\<close>

definition occurs :: "element \<Rightarrow> string \<Rightarrow> error + int" where
  "occurs inputElement name =
     (case get inputElement name of Some s \<Rightarrow> py_int s | None \<Rightarrow> Inr (- 1))"

definition Input_init :: "environment \<Rightarrow> element \<Rightarrow> error + Input" where
  "Input_init env inputElement =
     (case occurs inputElement ''minOccurs'' of
        Inl e \<Rightarrow> Inl e
      | Inr mn \<Rightarrow>
          (case occurs inputElement ''maxOccurs'' of
             Inl e \<Rightarrow> Inl e
           | Inr mx \<Rightarrow>
               (case parseLiteralData env
                       (InputOutput_init env inputElement (Input.fields mn mx))
                       inputElement [Tag ''LiteralData''] of
                  Inl e \<Rightarrow> Inl e
                | Inr self \<Rightarrow> Inr (parseComplexData self inputElement [Tag ''ComplexData'']))))"

text \<open>\<^verbatim>\<open>Output.__init__\<close>.\<close>

definition Output_init :: "environment \<Rightarrow> element \<Rightarrow> error + Output" where
  "Output_init env outputElement =
     (let self0 = InputOutput_init env outputElement (Output.fields None None None);
          self1 = (case find_elem outputElement (nspath [''Reference''] WPS_NAMESPACE) of
                     None \<Rightarrow> self0
                   | Some referenceElement \<Rightarrow>
                       self0\<lparr>reference := get referenceElement ''href'',
                              mimeType := get referenceElement ''mimeType''\<rparr>)
      in case parseLiteralData env self1 outputElement [Tag ''LiteralData''] of
           Inl e \<Rightarrow> Inl e
         | Inr self2 \<Rightarrow>
             (let self3 = parseComplexData self2 outputElement [Tag ''ComplexOutput'']
              in case find_elem outputElement (nspath [''Data''] WPS_NAMESPACE) of
                   None \<Rightarrow> Inr self3
                 | Some dataElement \<Rightarrow>
                     (case find_elem dataElement (nspath [''ComplexData''] WPS_NAMESPACE) of
                        None \<Rightarrow> Inr self3
                      | Some complexDataElement \<Rightarrow>
                          Inr (self3\<lparr>dataType := Some ''ComplexData'',
                                      mimeType := get complexDataElement ''mimeType'',
                                      data := etext complexDataElement\<rparr>))))"

text \<open>\<^verbatim>\<open>WPSException.__init__\<close>.\<close>

definition WPSException_init :: "environment \<Rightarrow> element \<Rightarrow> WPSException" where
  "WPSException_init env root =
     \<lparr> exc_code = get root ''exceptionCode'',
       exc_locator = get root ''locator'',
       exc_text = (case find_elem root
                          (nspath [''ExceptionText''] (DEFAULT_OWS_NAMESPACE (ows env))) of
                     Some textEl \<Rightarrow> etext textEl
                   | None \<Rightarrow> Some []) \<rparr>"

text \<open>\<^verbatim>\<open>Process.__init__\<close>, handed what \<^verbatim>\<open>find\<close> returned: reading an attribute of
  \<^verbatim>\<open>None\<close> raises.\<close>

definition Process_init :: "environment \<Rightarrow> element option \<Rightarrow> error + Process" where
  "Process_init env elem_opt =
     (case elem_opt of
        None \<Rightarrow> Inl AttributeError
      | Some elem \<Rightarrow>
          (case try_map (Input_init env) (findall elem [Tag ''DataInputs'', Tag ''Input'']) of
             Inl e \<Rightarrow> Inl e
           | Inr ins \<Rightarrow>
               (case try_map (Output_init env)
                       (findall elem [Tag ''ProcessOutputs'', Tag ''Output'']) of
                  Inl e \<Rightarrow> Inl e
                | Inr outs \<Rightarrow>
                    Inr \<lparr> processVersion = get elem (qname WPS_NAMESPACE ''processVersion''),
                          statusSupported = py_bool (get elem ''statusSupported''),
                          storeSupported = py_bool (get elem ''storeSupported''),
                          process_identifier =
                            parseText (find_elem elem
                              (nspath [''Identifier''] (DEFAULT_OWS_NAMESPACE (ows env)))),
                          process_title =
                            parseText (find_elem elem
                              (nspath [''Title''] (DEFAULT_OWS_NAMESPACE (ows env)))),
                          process_abstract =
                            parseText (find_elem elem
                              (nspath [''Abstract''] (DEFAULT_OWS_NAMESPACE (ows env)))),
                          process_dataInputs = ins,
                          process_processOutputs = outs \<rparr>)))"

section \<open>Reading documents\<close>

text \<open>\<^verbatim>\<open>WPSReader._readFromUrl\<close>: the document, or the error, together with the
  requests made.\<close>

definition readFromUrl_impl ::
  "environment \<Rightarrow> string option \<Rightarrow> request_data \<Rightarrow> string \<Rightarrow> string option \<Rightarrow> string option
   \<Rightarrow> (error + element) \<times> event list"
where
  "readFromUrl_impl env u dat method usr pwd =
     (if method = ''Get'' then
        (case build_get_url env u dat of
           Inl e \<Rightarrow> (Inl e, [])
         | Inr request_url \<Rightarrow>
             (let spliturl = split_str CHR ''?'' request_url
              in case index spliturl 0 of
                   Inl e \<Rightarrow> (Inl e, [])
                 | Inr base \<Rightarrow>
                     (case index spliturl 1 of
                        Inl e \<Rightarrow> (Inl e, [])
                      | Inr query \<Rightarrow>
                          (case openURL env (Some base) (Str query) ''Get'' usr pwd of
                             Inl e \<Rightarrow> (Inl e, [HttpRequest (Some base) (Str query) ''Get''])
                           | Inr bytes \<Rightarrow>
                               (fromstring env bytes,
                                [HttpRequest (Some base) (Str query) ''Get''])))))
      else if method = ''Post'' then
        (case openURL env u dat ''Post'' usr pwd of
           Inl e \<Rightarrow> (Inl e, [HttpRequest u dat ''Post''])
         | Inr bytes \<Rightarrow> (fromstring env bytes, [HttpRequest u dat ''Post'']))
      else (Inl (UnrecognizedMethod method), []))"

text \<open>\<^verbatim>\<open>WPSReader.readFromString\<close>: the argument is a \<^verbatim>\<open>str\<close> here, so the type
  test passes.\<close>

definition readFromString :: "environment \<Rightarrow> string \<Rightarrow> error + element" where
  "readFromString env string = fromstring env string"

text \<open>\<^verbatim>\<open>WPSExecuteReader.readFromUrl\<close>, whose defaults are an empty dictionary and
  \<^verbatim>\<open>'Get'\<close>.\<close>

definition readFromUrl ::
  "environment \<Rightarrow> string option \<Rightarrow> request_data \<Rightarrow> string \<Rightarrow> string option \<Rightarrow> string option
   \<Rightarrow> (error + element) \<times> event list"
where
  "readFromUrl env u dat method usr pwd = readFromUrl_impl env u dat method usr pwd"

section \<open>An execution\<close>

text \<open>\<^verbatim>\<open>WPSExecution.__init__\<close>.\<close>

definition WPSExecution_init ::
  "string \<Rightarrow> string option \<Rightarrow> string option \<Rightarrow> string option \<Rightarrow> bool \<Rightarrow> WPSExecution"
where
  "WPSExecution_init ver u usr pwd verb =
     \<lparr> url = u, version = ver, username = usr, password = pwd, verbose = verb,
       process = None, serviceInstance = None, status = None, errors = [],
       statusLocation = None, dataInputs = [], processOutputs = [] \<rparr>"

subsection \<open>The status\<close>

definition getStatus :: "WPSExecution \<Rightarrow> string option" where
  "getStatus self = status self"

definition isComplete :: "WPSExecution \<Rightarrow> error + bool" where
  "isComplete self =
     (if status self = Some ''ProcessSucceeded'' \<or> status self = Some ''ProcessFailed''
         \<or> status self = Some ''Exception'' then Inr True
      else if status self = Some ''ProcessStarted'' then Inr False
      else if status self = Some ''ProcessAccepted'' \<or> status self = Some ''ProcessPaused''
        then Inr False
      else Inl (UnknownStatus (status self)))"

definition isSucceded :: "WPSExecution \<Rightarrow> bool" where
  "isSucceded self = (if status self = Some ''ProcessSucceeded'' then True else False)"

definition isNotComplete :: "WPSExecution \<Rightarrow> error + bool" where
  "isNotComplete self = (case isComplete self of Inl e \<Rightarrow> Inl e | Inr b \<Rightarrow> Inr (\<not> b))"

subsection \<open>Parsing a response\<close>

text \<open>\<^verbatim>\<open>WPSExecution._parseExceptionReport\<close>.\<close>

definition parseExceptionReport :: "environment \<Rightarrow> WPSExecution \<Rightarrow> element \<Rightarrow> WPSExecution" where
  "parseExceptionReport env self root =
     foldl (\<lambda>s exceptionEl. s\<lparr>errors := errors s @ [WPSException_init env exceptionEl]\<rparr>)
       (if status self = None then self\<lparr>status := Some ''Exception''\<rparr> else self)
       (findall root (nspath [''Exception''] (DEFAULT_OWS_NAMESPACE (ows env))))"

text \<open>The two loops at the end of \<^verbatim>\<open>_parseExecuteResponse\<close>: an element that fails
  to parse raises, with what was appended before it kept.\<close>

fun append_dataInputs ::
  "environment \<Rightarrow> WPSExecution \<Rightarrow> element list \<Rightarrow> (error + unit) \<times> WPSExecution"
where
  "append_dataInputs env self [] = (Inr (), self)"
| "append_dataInputs env self (inputElement # rest) =
     (case Input_init env inputElement of
        Inl e \<Rightarrow> (Inl e, self)
      | Inr i \<Rightarrow> append_dataInputs env (self\<lparr>dataInputs := dataInputs self @ [i]\<rparr>) rest)"

fun append_processOutputs ::
  "environment \<Rightarrow> WPSExecution \<Rightarrow> element list \<Rightarrow> (error + unit) \<times> WPSExecution"
where
  "append_processOutputs env self [] = (Inr (), self)"
| "append_processOutputs env self (outputElement # rest) =
     (case Output_init env outputElement of
        Inl e \<Rightarrow> (Inl e, self)
      | Inr out \<Rightarrow>
          append_processOutputs env (self\<lparr>processOutputs := processOutputs self @ [out]\<rparr>) rest)"

text \<open>\<^verbatim>\<open>WPSExecution._parseExecuteResponse\<close>: the result and the execution as the
  call leaves it, also when it raises.\<close>

definition parseExecuteResponse ::
  "environment \<Rightarrow> WPSExecution \<Rightarrow> element \<Rightarrow> (error + unit) \<times> WPSExecution"
where
  "parseExecuteResponse env self root =
     (let self1 = self\<lparr>serviceInstance := get root ''serviceInstance''\<rparr>;
          self2 = self1\<lparr>statusLocation := get root ''statusLocation''\<rparr>
      in case find_elem root (nspath [''Status'', ''*''] WPS_NAMESPACE) of
           None \<Rightarrow> (Inl AttributeError, self2)
         | Some statusEl \<Rightarrow>
             (case index (split_str CHR ''}'' (tag statusEl)) 1 of
                Inl e \<Rightarrow> (Inl e, self2)
              | Inr st \<Rightarrow>
                  (let self3 = self2\<lparr>status := Some st\<rparr>
                   in case Process_init env (find_elem root (nspath [''Process''] WPS_NAMESPACE)) of
                        Inl e \<Rightarrow> (Inl e, self3)
                      | Inr p \<Rightarrow>
                          (let self4 = self3\<lparr>process := Some p\<rparr>;
                               self5 =
                                 (case find_elem statusEl
                                         (nspath [''ExceptionReport'']
                                            (DEFAULT_OWS_NAMESPACE (ows env))) of
                                    Some exceptionEl \<Rightarrow> parseExceptionReport env self4 exceptionEl
                                  | None \<Rightarrow> self4)
                           in case append_dataInputs env self5
                                     (findall root
                                        (nspath [''DataInputs'', ''Input'']
                                           ''http://www.opengis.net/wps/1.0.0'')) of
                                (Inl e, self6) \<Rightarrow> (Inl e, self6)
                              | (Inr _, self6) \<Rightarrow>
                                  append_processOutputs env self6
                                    (findall root
                                       (nspath [''ProcessOutputs'', ''Output'']
                                          WPS_NAMESPACE))))))"

text \<open>\<^verbatim>\<open>WPSExecution.parseResponse\<close>.\<close>

definition parseResponse ::
  "environment \<Rightarrow> WPSExecution \<Rightarrow> element \<Rightarrow> (error + unit) \<times> WPSExecution"
where
  "parseResponse env self response =
     (case index (split_str CHR ''}'' (tag response)) 1 of
        Inl e \<Rightarrow> (Inl e, self)
      | Inr rootTag \<Rightarrow>
          (if rootTag = ''ExecuteResponse'' then parseExecuteResponse env self response
           else if rootTag = ''ExceptionReport''
             then (Inr (), parseExceptionReport env self response)
           else (Inr (), self)))"

subsection \<open>Building a request\<close>

text \<open>
  An input value is a string, or an object: what its \<^verbatim>\<open>getXml()\<close> returns or
  raises (\<^verbatim>\<open>AttributeError\<close> for an object that has no such method,
  \<^verbatim>\<open>NotImplementedError\<close> for a bare \<^verbatim>\<open>FeatureCollection\<close>).
\<close>

datatype input_value = Literal string | Object "error + element"

text \<open>The body of the loop over the inputs: the \<^verbatim>\<open>Input\<close> element of one pair.\<close>

definition inputElement_of ::
  "ows_constants \<Rightarrow> string \<times> input_value \<Rightarrow> error + element"
where
  "inputElement_of c input =
     (let key = fst input; val = snd input;
          identifierElement =
            Element (nspath_eval ''ows'' ''Identifier'' (namespaces c)) [] (Some key) []
      in case val of
           Literal v \<Rightarrow>
             Inr (Element (nspath_eval ''wps'' ''Input'' (namespaces c)) [] None
                    [identifierElement,
                     Element (nspath_eval ''wps'' ''Data'' (namespaces c)) [] None
                       [Element (nspath_eval ''wps'' ''LiteralData'' (namespaces c)) []
                          (Some v) []]])
         | Object getXml \<Rightarrow>
             (case getXml of
                Inl e \<Rightarrow> Inl e
              | Inr xml \<Rightarrow>
                  Inr (Element (nspath_eval ''wps'' ''Input'' (namespaces c)) [] None
                         [identifierElement, xml])))"

text \<open>\<^verbatim>\<open>WPSExecution.buildRequest\<close>. The method reads nothing of the execution.\<close>

definition buildRequest ::
  "ows_constants \<Rightarrow> string \<Rightarrow> (string \<times> input_value) list \<Rightarrow> string option \<Rightarrow> error + element"
where
  "buildRequest c ident inputs output =
     (case try_map (inputElement_of c) inputs of
        Inl e \<Rightarrow> Inl e
      | Inr inputElements \<Rightarrow>
          Inr (Element (nspath_eval ''wps'' ''Execute'' (namespaces c))
                 [(''service'', ''WPS''),
                  (''version'', WPS_DEFAULT_VERSION),
                  (''xmlns:ows'', DEFAULT_OWS_NAMESPACE c),
                  (''xmlns:xlink'', XLINK_NAMESPACE c),
                  (nspath_eval ''xsi'' ''schemaLocation'' (namespaces c),
                   WPS_NAMESPACE @ '' '' @ WPS_SCHEMA_LOCATION)]
                 None
                 ([Element (nspath_eval ''ows'' ''Identifier'' (namespaces c)) [] (Some ident) [],
                   Element (nspath_eval ''wps'' ''DataInputs'' (namespaces c)) [] None
                     inputElements]
                  @ (case output of
                       None \<Rightarrow> []
                     | Some out \<Rightarrow>
                         [Element (nspath_eval ''wps'' ''ResponseForm'' (namespaces c)) [] None
                            [Element (nspath_eval ''wps'' ''ResponseDocument'' (namespaces c))
                               [(''storeExecuteResponse'', ''true''), (''status'', ''true'')]
                               None
                               [Element (nspath_eval ''wps'' ''Output'' (namespaces c))
                                  [(''asReference'', ''true'')] None
                                  [Element (nspath_eval ''ows'' ''Identifier'' (namespaces c))
                                     [] (Some out) []]]]]))))"

subsection \<open>Submitting and polling\<close>

text \<open>\<^verbatim>\<open>WPSExecution.submitRequest\<close>.\<close>

definition submitRequest ::
  "environment \<Rightarrow> WPSExecution \<Rightarrow> string \<Rightarrow> (error + element) \<times> event list"
where
  "submitRequest env self request =
     readFromUrl env (url self) (Str request) ''Post'' (username self) (password self)"

text \<open>
  \<^verbatim>\<open>time.sleep\<close>: it suspends the caller and returns, or, for a negative length,
  raises without suspending (an \<^verbatim>\<open>IOError\<close> for an invalid argument in Python 2, a
  \<^verbatim>\<open>ValueError\<close> in Python 3).
\<close>

definition sleep :: "int \<Rightarrow> (error + unit) \<times> event list" where
  "sleep secs = (if secs < 0 then (Inl SleepError, []) else (Inr (), [Sleep secs]))"

text \<open>\<^verbatim>\<open>WPSExecution.checkStatus\<close>: the result, the execution as the call leaves it and
  what the call did, in order.\<close>

definition checkStatus ::
  "environment \<Rightarrow> WPSExecution \<Rightarrow> string option \<Rightarrow> string option \<Rightarrow> int
   \<Rightarrow> (error + unit) \<times> WPSExecution \<times> event list"
where
  "checkStatus env self u response sleepSecs =
     (let (self1, read) =
            (case response of
               None \<Rightarrow>
                 (let self1 = (case u of Some v \<Rightarrow> self\<lparr>statusLocation := Some v\<rparr>
                                        | None \<Rightarrow> self)
                  in (self1,
                      readFromUrl env (statusLocation self1) (Dict []) ''Get''
                        (username self1) (password self1)))
             | Some r \<Rightarrow> (self, (readFromString env r, [])))
      in case read of
           (Inl e, evs) \<Rightarrow> (Inl e, self1, evs)
         | (Inr doc, evs) \<Rightarrow>
             (case parseResponse env self1 doc of
                (Inl e, self2) \<Rightarrow> (Inl e, self2, evs)
              | (Inr _, self2) \<Rightarrow>
                  (case isComplete self2 of
                     Inl e \<Rightarrow> (Inl e, self2, evs)
                   | Inr complete \<Rightarrow>
                       (if complete = False then
                          (case sleep sleepSecs of
                             (Inl e, slept) \<Rightarrow> (Inl e, self2, evs @ slept)
                           | (Inr _, slept) \<Rightarrow> (Inr (), self2, evs @ slept))
                        else (Inr (), self2, evs)))))"

subsection \<open>Retrieving the output\<close>

text \<open>
  The body of \<^verbatim>\<open>if output.reference is not None\<close> in \<^verbatim>\<open>getOutput\<close>, for the
  reference \<open>u\<close> and the current value of the variable \<^verbatim>\<open>filepath\<close>: the value of
  \<^verbatim>\<open>filepath\<close> afterwards, or the error, and what was done.
\<close>

definition write_output ::
  "environment \<Rightarrow> string \<Rightarrow> string \<Rightarrow> event list \<Rightarrow> (error + string) \<times> event list"
where
  "write_output env filepath bytes evs =
     (if can_open_wb env filepath then (Inr filepath, evs @ [FileWrite filepath bytes])
      else (Inl IOError, evs))"

definition retrieve_reference ::
  "environment \<Rightarrow> WPSExecution \<Rightarrow> string \<Rightarrow> string option \<Rightarrow> (error + string) \<times> event list"
where
  "retrieve_reference env self u filepath =
     (if CHR ''?'' \<in> set u then
        (let spliturl = split_str CHR ''?'' u
         in case index spliturl 0 of
              Inl e \<Rightarrow> (Inl e, [])
            | Inr base \<Rightarrow>
                (case index spliturl 1 of
                   Inl e \<Rightarrow> (Inl e, [])
                 | Inr query \<Rightarrow>
                     (case openURL env (Some base) (Str query) ''Get''
                             (username self) (password self) of
                        Inl e \<Rightarrow> (Inl e, [HttpRequest (Some base) (Str query) ''Get''])
                      | Inr bytes \<Rightarrow>
                          (case (case filepath of
                                   None \<Rightarrow> index (split_str CHR ''='' query) 1
                                 | Some f \<Rightarrow> Inr f) of
                             Inl e \<Rightarrow> (Inl e, [HttpRequest (Some base) (Str query) ''Get''])
                           | Inr f \<Rightarrow>
                               write_output env f bytes
                                 [HttpRequest (Some base) (Str query) ''Get'']))))
      else
        (case openURL env (Some u) (Str []) ''Get'' (username self) (password self) of
           Inl e \<Rightarrow> (Inl e, [HttpRequest (Some u) (Str []) ''Get''])
         | Inr bytes \<Rightarrow>
             (case (case filepath of
                      None \<Rightarrow> index_last (split_str CHR ''/'' u)
                    | Some f \<Rightarrow> Inr f) of
                Inl e \<Rightarrow> (Inl e, [HttpRequest (Some u) (Str []) ''Get''])
              | Inr f \<Rightarrow> write_output env f bytes [HttpRequest (Some u) (Str []) ''Get''])))"

text \<open>The loop over \<^verbatim>\<open>self.processOutputs\<close>; \<^verbatim>\<open>filepath\<close> is a variable of the
  method, so an assignment in one round is seen by the next.\<close>

fun retrieve_outputs ::
  "environment \<Rightarrow> WPSExecution \<Rightarrow> Output list \<Rightarrow> string option \<Rightarrow> (error + unit) \<times> event list"
where
  "retrieve_outputs env self [] filepath = (Inr (), [])"
| "retrieve_outputs env self (output # rest) filepath =
     (case reference output of
        None \<Rightarrow> retrieve_outputs env self rest filepath
      | Some u \<Rightarrow>
          (case retrieve_reference env self u filepath of
             (Inl e, evs) \<Rightarrow> (Inl e, evs)
           | (Inr f, evs) \<Rightarrow>
               (case retrieve_outputs env self rest (Some f) of
                  (r, evs') \<Rightarrow> (r, evs @ evs'))))"

text \<open>\<^verbatim>\<open>WPSExecution.getOutput\<close>: the result, the execution as the call leaves it and
  what the call did.\<close>

definition getOutput ::
  "environment \<Rightarrow> WPSExecution \<Rightarrow> string option
   \<Rightarrow> (error + unit) \<times> WPSExecution \<times> event list"
where
  "getOutput env self filepath =
     (if isSucceded self then
        (case retrieve_outputs env self (processOutputs self) filepath of
           (r, evs) \<Rightarrow> (r, self, evs))
      else (Inl (NotSuccessful (status self)), self, []))"

section \<open>What the properties are stated with\<close>

text \<open>
  The file name \<^verbatim>\<open>getOutput\<close> derives from a reference when it was given no path:
  the second piece of the query string cut at \<^verbatim>\<open>=\<close> when the reference has a
  \<^verbatim>\<open>?\<close>, else its last piece cut at \<^verbatim>\<open>/\<close>.
\<close>

definition derived_filename :: "string \<Rightarrow> error + string" where
  "derived_filename u =
     (if CHR ''?'' \<in> set u then
        (case index (split_str CHR ''?'' u) 1 of
           Inl e \<Rightarrow> Inl e
         | Inr query \<Rightarrow> index (split_str CHR ''='' query) 1)
      else index_last (split_str CHR ''/'' u))"

text \<open>The paths of the files a call wrote, in order, and the references of a list of
  outputs, in order.\<close>

definition written_paths :: "event list \<Rightarrow> string list" where
  "written_paths evs = concat (map (\<lambda>ev. case ev of FileWrite p b \<Rightarrow> [p] | _ \<Rightarrow> []) evs)"

definition references :: "Output list \<Rightarrow> string list" where
  "references outs =
     concat (map (\<lambda>out. case reference out of None \<Rightarrow> [] | Some u \<Rightarrow> [u]) outs)"

text \<open>
  What a call of \<open>checkStatus\<close> polls: the location (the \<^verbatim>\<open>url\<close> argument when there
  is one, else the current status location), the document (the response handed in,
  parsed; else what a GET of the location returns, parsed) and the execution that
  document is parsed into (the execution as it is when a response was handed in, else
  with the location as its status location).
\<close>

definition poll_location :: "WPSExecution \<Rightarrow> string option \<Rightarrow> string option" where
  "poll_location self u = (case u of Some v \<Rightarrow> Some v | None \<Rightarrow> statusLocation self)"

definition polled_document ::
  "environment \<Rightarrow> WPSExecution \<Rightarrow> string option \<Rightarrow> string option \<Rightarrow> error + element"
where
  "polled_document env self u response =
     (case response of
        Some r \<Rightarrow> fromstring env r
      | None \<Rightarrow> fst (readFromUrl env (poll_location self u) (Dict []) ''Get''
                      (username self) (password self)))"

definition polled_execution ::
  "WPSExecution \<Rightarrow> string option \<Rightarrow> string option \<Rightarrow> WPSExecution"
where
  "polled_execution self u response =
     (case response of
        Some r \<Rightarrow> self
      | None \<Rightarrow> self\<lparr>statusLocation := poll_location self u\<rparr>)"

text \<open>The request \<^verbatim>\<open>readFromUrl\<close> makes for a location, with the empty dictionary of
  parameters: none when the URL cannot be built or split.\<close>

definition get_request :: "environment \<Rightarrow> string option \<Rightarrow> event list" where
  "get_request env location =
     (case build_get_url env location (Dict []) of
        Inl e \<Rightarrow> []
      | Inr request_url \<Rightarrow>
          (case index (split_str CHR ''?'' request_url) 1 of
             Inl e \<Rightarrow> []
           | Inr query \<Rightarrow>
               [HttpRequest (Some (hd (split_str CHR ''?'' request_url))) (Str query) ''Get'']))"

text \<open>All elements of a document, in document order.\<close>

fun elements :: "element \<Rightarrow> element list" where
  "elements (Element t a x cs) = Element t a x cs # concat (map elements cs)"

text \<open>
  Reading an \<^verbatim>\<open>Execute\<close> request back, with the lookups the module itself parses
  documents with: the process identifier is the text of the \<^verbatim>\<open>Identifier\<close> child of
  the root; the inputs are the \<^verbatim>\<open>DataInputs/Input\<close> elements, each read as the text
  of its \<^verbatim>\<open>Identifier\<close> and the text of its \<^verbatim>\<open>Data/LiteralData\<close>.
\<close>

definition read_identifier :: "ows_constants \<Rightarrow> element \<Rightarrow> string option" where
  "read_identifier c root =
     parseText (find_elem root (nspath [''Identifier''] (DEFAULT_OWS_NAMESPACE c)))"

definition read_inputs :: "ows_constants \<Rightarrow> element \<Rightarrow> (string option \<times> string option) list" where
  "read_inputs c root =
     map (\<lambda>inputElement.
            (parseText (find_elem inputElement
                          (nspath [''Identifier''] (DEFAULT_OWS_NAMESPACE c))),
             parseText (find_elem inputElement
                          (nspath [''Data'', ''LiteralData''] WPS_NAMESPACE))))
       (findall root (nspath [''DataInputs'', ''Input''] WPS_NAMESPACE))"

text \<open>The \<^verbatim>\<open>Input\<close> element of a literal pair, and the \<^verbatim>\<open>ResponseForm\<close> block
  that asks for an output by reference.\<close>

definition literal_input :: "ows_constants \<Rightarrow> string \<times> string \<Rightarrow> element" where
  "literal_input c p =
     Element (qname WPS_NAMESPACE ''Input'') [] None
       [Element (qname (DEFAULT_OWS_NAMESPACE c) ''Identifier'') [] (Some (fst p)) [],
        Element (qname WPS_NAMESPACE ''Data'') [] None
          [Element (qname WPS_NAMESPACE ''LiteralData'') [] (Some (snd p)) []]]"

definition response_form :: "ows_constants \<Rightarrow> string \<Rightarrow> element" where
  "response_form c out =
     Element (qname WPS_NAMESPACE ''ResponseForm'') [] None
       [Element (qname WPS_NAMESPACE ''ResponseDocument'')
          [(''storeExecuteResponse'', ''true''), (''status'', ''true'')] None
          [Element (qname WPS_NAMESPACE ''Output'') [(''asReference'', ''true'')] None
             [Element (qname (DEFAULT_OWS_NAMESPACE c) ''Identifier'') [] (Some out) []]]]"

section \<open>Example data\<close>

text \<open>Documents, collaborators and executions on which the theorems below are
  instantiated.\<close>

definition example_exception_report :: element where
  "example_exception_report =
     Element ''{http://www.opengis.net/ows/1.1}ExceptionReport'' [(''version'', ''1.0.0'')] None
       [Element ''{http://www.opengis.net/ows/1.1}Exception''
          [(''exceptionCode'', ''InvalidParameterValue''), (''locator'', ''identifier'')] None
          [Element ''{http://www.opengis.net/ows/1.1}ExceptionText'' []
             (Some ''no such process'') []],
        Element ''{http://www.opengis.net/ows/1.1}Exception''
          [(''exceptionCode'', ''NoApplicableCode'')] None []]"

definition example_no_status :: element where
  "example_no_status =
     Element ''{http://www.opengis.net/wps/1.0.0}ExecuteResponse''
       [(''serviceInstance'', ''http://example.org/wps''),
        (''statusLocation'', ''http://example.org/status?id=7'')] None
       [Element ''{http://www.opengis.net/wps/1.0.0}Process'' [] None [],
        Element ''{http://www.opengis.net/wps/1.0.0}Status'' [(''creationTime'', ''now'')]
          None []]"

definition example_started :: element where
  "example_started =
     Element ''{http://www.opengis.net/wps/1.0.0}ExecuteResponse''
       [(''serviceInstance'', ''http://example.org/wps''),
        (''statusLocation'', ''http://example.org/status?id=7'')] None
       [Element ''{http://www.opengis.net/wps/1.0.0}Process'' [] None
          [Element ''{http://www.opengis.net/ows/1.1}Identifier'' [] (Some ''EchoProcess'') []],
        Element ''{http://www.opengis.net/wps/1.0.0}Status'' [] None
          [Element ''{http://www.opengis.net/wps/1.0.0}ProcessStarted'' [] None []]]"

definition example_succeeded :: element where
  "example_succeeded =
     Element ''{http://www.opengis.net/wps/1.0.0}ExecuteResponse''
       [(''serviceInstance'', ''http://example.org/wps''),
        (''statusLocation'', ''http://example.org/status?id=7'')] None
       [Element ''{http://www.opengis.net/wps/1.0.0}Process'' [] None
          [Element ''{http://www.opengis.net/ows/1.1}Identifier'' [] (Some ''EchoProcess'') []],
        Element ''{http://www.opengis.net/wps/1.0.0}Status'' [] None
          [Element ''{http://www.opengis.net/wps/1.0.0}ProcessSucceeded'' [] (Some ''done'') []],
        Element ''{http://www.opengis.net/wps/1.0.0}DataInputs'' [] None
          [Element ''{http://www.opengis.net/wps/1.0.0}Input'' [] None
             [Element ''{http://www.opengis.net/ows/1.1}Identifier'' [] (Some ''message'') [],
              Element ''{http://www.opengis.net/wps/1.0.0}Data'' [] None
                [Element ''{http://www.opengis.net/wps/1.0.0}LiteralData'' []
                   (Some ''hello'') []]]],
        Element ''{http://www.opengis.net/wps/1.0.0}ProcessOutputs'' [] None
          [Element ''{http://www.opengis.net/wps/1.0.0}Output'' [] None
             [Element ''{http://www.opengis.net/ows/1.1}Identifier'' [] (Some ''OUTPUT'') [],
              Element ''{http://www.opengis.net/wps/1.0.0}Reference''
                [(''href'', ''http://example.org/RetrieveResultServlet?id=42OUTPUT.csv''),
                 (''mimeType'', ''text/csv'')] None []],
           Element ''{http://www.opengis.net/wps/1.0.0}Output'' [] None
             [Element ''{http://www.opengis.net/ows/1.1}Identifier'' [] (Some ''IMAGE'') [],
              Element ''{http://www.opengis.net/wps/1.0.0}Reference''
                [(''href'', ''http://example.org/wpsoutputs/image.tif''),
                 (''mimeType'', ''image/tiff'')] None []]]]"

definition example_env :: environment where
  "example_env =
     \<lparr> ows = \<lparr> DEFAULT_OWS_NAMESPACE = ''http://www.opengis.net/ows/1.1'',
                XSI_NAMESPACE = ''http://www.w3.org/2001/XMLSchema-instance'',
                XLINK_NAMESPACE = ''http://www.w3.org/1999/xlink'' \<rparr>,
       getTypedValue = (\<lambda>dt v. Inr (case v of None \<Rightarrow> PyNone | Some s \<Rightarrow> PyStr s)),
       build_get_url =
         (\<lambda>u d. case u of
                  None \<Rightarrow> Inl AttributeError
                | Some s \<Rightarrow> Inr (if CHR ''?'' \<in> set s then s else s @ ''?'')),
       openURL =
         (\<lambda>u d m usr pwd.
            case u of
              None \<Rightarrow> Inl TransportError
            | Some s \<Rightarrow> if s = ''http://example.org/status'' then Inr ''started''
                        else if s = ''http://example.org/other'' then Inr ''other''
                        else if s = ''http://down.example.org/status'' then Inl TransportError
                        else Inr (''bytes of '' @ s)),
       fromstring =
         (\<lambda>s. if s = ''started'' then Inr example_started
              else if s = ''succeeded'' then Inr example_succeeded
              else if s = ''report'' then Inr example_exception_report
              else if s = ''other'' then Inr (Element ''{urn:x}Other'' [] None [])
              else Inl XMLSyntaxError),
       can_open_wb = (\<lambda>p. True) \<rparr>"

definition example_execution :: WPSExecution where
  "example_execution =
     WPSExecution_init WPS_DEFAULT_VERSION (Some ''http://example.org/wps'') None None False"

definition example_input :: Input where
  "example_input =
     \<lparr> io_identifier = Some ''message'', io_title = None, io_abstract = None,
       allowedValues = [], supportedValues = [], defaultValue = PyNone, dataType = None,
       minOccurs = - 1, maxOccurs = - 1 \<rparr>"

definition example_output :: Output where
  "example_output =
     \<lparr> io_identifier = Some ''OUTPUT'', io_title = None, io_abstract = None,
       allowedValues = [], supportedValues = [], defaultValue = PyNone, dataType = None,
       reference = Some ''http://example.org/RetrieveResultServlet?id=42OUTPUT.csv'',
       mimeType = Some ''text/csv'', data = None \<rparr>"

definition example_image :: Output where
  "example_image =
     \<lparr> io_identifier = Some ''IMAGE'', io_title = None, io_abstract = None,
       allowedValues = [], supportedValues = [], defaultValue = PyNone, dataType = None,
       reference = Some ''http://example.org/wpsoutputs/image.tif'',
       mimeType = Some ''image/tiff'', data = None \<rparr>"

definition example_process :: Process where
  "example_process =
     \<lparr> processVersion = None, statusSupported = False, storeSupported = False,
       process_identifier = Some ''EchoProcess'', process_title = None,
       process_abstract = None, process_dataInputs = [], process_processOutputs = [] \<rparr>"

text \<open>The example execution after it has parsed the last response once.\<close>

definition example_polled :: WPSExecution where
  "example_polled =
     example_execution
       \<lparr> process := Some example_process,
         serviceInstance := Some ''http://example.org/wps'',
         status := Some ''ProcessSucceeded'',
         statusLocation := Some ''http://example.org/status?id=7'',
         dataInputs := [example_input],
         processOutputs := [example_output, example_image] \<rparr>"

text \<open>The example execution after it has parsed the response of a started process.\<close>

definition example_running :: WPSExecution where
  "example_running =
     example_execution
       \<lparr> process := Some example_process,
         serviceInstance := Some ''http://example.org/wps'',
         status := Some ''ProcessStarted'',
         statusLocation := Some ''http://example.org/status?id=7'' \<rparr>"

text \<open>The request of the specification's scenario: process \<^verbatim>\<open>EchoProcess\<close>, input
  \<^verbatim>\<open>message = hello\<close>, no output identifier.\<close>

definition example_echo_request :: element where
  "example_echo_request =
     Element ''{http://www.opengis.net/wps/1.0.0}Execute''
       [(''service'', ''WPS''),
        (''version'', ''1.0.0''),
        (''xmlns:ows'', ''http://www.opengis.net/ows/1.1''),
        (''xmlns:xlink'', ''http://www.w3.org/1999/xlink''),
        (''{http://www.w3.org/2001/XMLSchema-instance}schemaLocation'',
         ''http://www.opengis.net/wps/1.0.0 http://schemas.opengis.net/wps/1.0.0/wpsExecute_request.xsd'')]
       None
       [Element ''{http://www.opengis.net/ows/1.1}Identifier'' [] (Some ''EchoProcess'') [],
        Element ''{http://www.opengis.net/wps/1.0.0}DataInputs'' [] None
          [Element ''{http://www.opengis.net/wps/1.0.0}Input'' [] None
             [Element ''{http://www.opengis.net/ows/1.1}Identifier'' [] (Some ''message'') [],
              Element ''{http://www.opengis.net/wps/1.0.0}Data'' [] None
                [Element ''{http://www.opengis.net/wps/1.0.0}LiteralData'' []
                   (Some ''hello'') []]]]]"

text \<open>A request with a feature collection as input and an output identifier.\<close>

definition example_reference :: element where
  "example_reference =
     Element ''{http://www.opengis.net/wps/1.0.0}Reference''
       [(''xlink:href'', ''http://example.org/geoserver/wfs'')] None
       [Element ''{http://www.opengis.net/wps/1.0.0}Body'' [] None []]"

definition example_reference_request :: element where
  "example_reference_request =
     Element ''{http://www.opengis.net/wps/1.0.0}Execute''
       [(''service'', ''WPS''),
        (''version'', ''1.0.0''),
        (''xmlns:ows'', ''http://www.opengis.net/ows/1.1''),
        (''xmlns:xlink'', ''http://www.w3.org/1999/xlink''),
        (''{http://www.w3.org/2001/XMLSchema-instance}schemaLocation'',
         ''http://www.opengis.net/wps/1.0.0 http://schemas.opengis.net/wps/1.0.0/wpsExecute_request.xsd'')]
       None
       [Element ''{http://www.opengis.net/ows/1.1}Identifier'' [] (Some ''EchoProcess'') [],
        Element ''{http://www.opengis.net/wps/1.0.0}DataInputs'' [] None
          [Element ''{http://www.opengis.net/wps/1.0.0}Input'' [] None
             [Element ''{http://www.opengis.net/ows/1.1}Identifier'' []
                (Some ''FEATURE_COLLECTION'') [],
              example_reference]],
        Element ''{http://www.opengis.net/wps/1.0.0}ResponseForm'' [] None
          [Element ''{http://www.opengis.net/wps/1.0.0}ResponseDocument''
             [(''storeExecuteResponse'', ''true''), (''status'', ''true'')] None
             [Element ''{http://www.opengis.net/wps/1.0.0}Output''
                [(''asReference'', ''true'')] None
                [Element ''{http://www.opengis.net/ows/1.1}Identifier'' []
                   (Some ''OUTPUT'') []]]]]"

section \<open>Properties\<close>

subsection \<open>Lookups\<close>

lemma matches_Tag: "matches (Tag t) = (\<lambda>c. tag c = t)"
  by (rule ext) simp

lemma findall_tag:
  "findall el (nspath [name] ns) =
     (if name = ''*'' then children el else filter (\<lambda>c. tag c = qname ns name) (children el))"
  by (simp add: findall_def nspath_def matches_Tag)

subsection \<open>The completion test\<close>

text \<open>
  C1 (as the specification has it). \<open>isComplete\<close> returns false for every status of the
  non-terminal set, in which the specification counts the unset status. It does not:
  on an execution that has parsed nothing yet the status is \<^verbatim>\<open>None\<close>, no branch of
  the comparison chain matches and the final \<^verbatim>\<open>else\<close> raises the unknown-status
  error.
\<close>

theorem isComplete_unset_counterexample:
  "isComplete example_execution = Inl (UnknownStatus None)"
  by (simp add: isComplete_def example_execution_def WPSExecution_init_def)

text \<open>
  C1 (amended). \<open>isComplete\<close> returns true exactly on \<^verbatim>\<open>ProcessSucceeded\<close>,
  \<^verbatim>\<open>ProcessFailed\<close> and \<^verbatim>\<open>Exception\<close>, returns false exactly on
  \<^verbatim>\<open>ProcessAccepted\<close>, \<^verbatim>\<open>ProcessStarted\<close> and \<^verbatim>\<open>ProcessPaused\<close>, and raises the
  unknown-status error, carrying the status, exactly when the status is none of these
  six strings, the unset status included.
\<close>

theorem isComplete_cases:
  "(isComplete self = Inr True \<longleftrightarrow>
      status self \<in> {Some ''ProcessSucceeded'', Some ''ProcessFailed'', Some ''Exception''})
   \<and> (isComplete self = Inr False \<longleftrightarrow>
      status self \<in> {Some ''ProcessAccepted'', Some ''ProcessStarted'', Some ''ProcessPaused''})
   \<and> (status self \<notin> {Some ''ProcessSucceeded'', Some ''ProcessFailed'', Some ''Exception'',
                      Some ''ProcessAccepted'', Some ''ProcessStarted'', Some ''ProcessPaused''}
        \<longrightarrow> isComplete self = Inl (UnknownStatus (status self)))
   \<and> ((\<exists>e. isComplete self = Inl e) \<longrightarrow>
        status self \<notin> {Some ''ProcessSucceeded'', Some ''ProcessFailed'', Some ''Exception'',
                      Some ''ProcessAccepted'', Some ''ProcessStarted'', Some ''ProcessPaused''})"
  by (simp add: isComplete_def)

theorem isComplete_cases_witness:
  "status (example_execution\<lparr>status := Some ''Unheard''\<rparr>)
     \<notin> {Some ''ProcessSucceeded'', Some ''ProcessFailed'', Some ''Exception'',
        Some ''ProcessAccepted'', Some ''ProcessStarted'', Some ''ProcessPaused''}
   \<and> isComplete (example_execution\<lparr>status := Some ''Unheard''\<rparr>)
       = Inl (UnknownStatus (Some ''Unheard''))
   \<and> isComplete (example_execution\<lparr>status := Some ''ProcessPaused''\<rparr>) = Inr False
   \<and> isComplete (example_execution\<lparr>status := Some ''ProcessFailed''\<rparr>) = Inr True"
  using isComplete_cases [of "example_execution\<lparr>status := Some ''Unheard''\<rparr>"]
        isComplete_cases [of "example_execution\<lparr>status := Some ''ProcessPaused''\<rparr>"]
        isComplete_cases [of "example_execution\<lparr>status := Some ''ProcessFailed''\<rparr>"]
  by simp

subsection \<open>Retrieving output before success\<close>

text \<open>
  C2. On an execution whose status is not \<^verbatim>\<open>ProcessSucceeded\<close> (any other string, or
  unset), \<open>getOutput\<close>, with or without a file path, raises the error that the execution
  is not successfully completed, makes no request, writes no file and leaves the
  execution as it was.
\<close>

theorem getOutput_not_succeeded:
  "status self \<noteq> Some ''ProcessSucceeded'' \<Longrightarrow>
   getOutput env self filepath = (Inl (NotSuccessful (status self)), self, [])"
  by (simp add: getOutput_def isSucceded_def)

theorem getOutput_not_succeeded_witness:
  "status (example_execution\<lparr>status := Some ''ProcessStarted''\<rparr>) \<noteq> Some ''ProcessSucceeded''
   \<and> getOutput example_env (example_execution\<lparr>status := Some ''ProcessStarted''\<rparr>) None
       = (Inl (NotSuccessful (Some ''ProcessStarted'')),
          example_execution\<lparr>status := Some ''ProcessStarted''\<rparr>, [])"
  using getOutput_not_succeeded
          [of "example_execution\<lparr>status := Some ''ProcessStarted''\<rparr>" example_env None]
  by simp

subsection \<open>Dispatch on the root element\<close>

text \<open>
  C3. A document whose root is neither an \<^verbatim>\<open>ExecuteResponse\<close> nor an
  \<^verbatim>\<open>ExceptionReport\<close> is to be a no-op that raises nothing. The root tag is cut at
  \<^verbatim>\<open>}\<close> and the second piece is compared, so a root element that is in no namespace,
  such as \<^verbatim>\<open><Foo/>\<close>, has no second piece: \<open>parseResponse\<close> raises
  \<^verbatim>\<open>IndexError\<close> before it reaches the branch for unknown responses. The execution
  is left as it was.
\<close>

theorem parseResponse_unqualified_root:
  "parseResponse env self (Element ''Foo'' [] None []) = (Inl IndexError, self)"
  by (simp add: parseResponse_def index_def)

text \<open>For a root in a namespace the unknown response is the no-op the specification
  describes.\<close>

lemma parseResponse_unknown_root:
  "index (split_str CHR ''}'' (tag response)) 1 = Inr rootTag \<Longrightarrow>
   rootTag \<noteq> ''ExecuteResponse'' \<Longrightarrow> rootTag \<noteq> ''ExceptionReport'' \<Longrightarrow>
   parseResponse env self response = (Inr (), self)"
  by (simp add: parseResponse_def)

subsection \<open>Exception reports\<close>

lemma foldl_append_errors:
  "foldl (\<lambda>s el. s\<lparr>errors := errors s @ [f el]\<rparr>) self els
     = self\<lparr>errors := errors self @ map f els\<rparr>"
  by (induction els arbitrary: self) simp_all

text \<open>
  C4. \<open>parseExceptionReport\<close> never raises. It sets an unset status to \<^verbatim>\<open>Exception\<close> and
  leaves any other status alone; and it appends to the errors, in document order, one
  exception for each \<^verbatim>\<open>Exception\<close> child of the report, made of that element's
  \<^verbatim>\<open>exceptionCode\<close> and \<^verbatim>\<open>locator\<close> attributes and the text of its first
  \<^verbatim>\<open>ExceptionText\<close> child (the empty string when it has none).
\<close>

theorem parseExceptionReport_appends:
  "parseExceptionReport env self root =
     self\<lparr> status := (if status self = None then Some ''Exception'' else status self),
            errors := errors self @
              map (\<lambda>exceptionEl.
                     \<lparr> exc_code = map_of (attrib exceptionEl) ''exceptionCode'',
                       exc_locator = map_of (attrib exceptionEl) ''locator'',
                       exc_text =
                         (case filter (\<lambda>c. tag c = qname (DEFAULT_OWS_NAMESPACE (ows env))
                                                       ''ExceptionText'')
                                 (children exceptionEl) of
                            [] \<Rightarrow> Some []
                          | textEl # _ \<Rightarrow> etext textEl) \<rparr>)
                (filter (\<lambda>c. tag c = qname (DEFAULT_OWS_NAMESPACE (ows env)) ''Exception'')
                   (children root)) \<rparr>"
proof -
  have w: "WPSException_init env = (\<lambda>exceptionEl.
                     \<lparr> exc_code = map_of (attrib exceptionEl) ''exceptionCode'',
                       exc_locator = map_of (attrib exceptionEl) ''locator'',
                       exc_text =
                         (case filter (\<lambda>c. tag c = qname (DEFAULT_OWS_NAMESPACE (ows env))
                                                       ''ExceptionText'')
                                 (children exceptionEl) of
                            [] \<Rightarrow> Some []
                          | textEl # _ \<Rightarrow> etext textEl) \<rparr>)"
    by (rule ext)
       (simp add: WPSException_init_def get_def find_elem_def findall_tag split: list.splits)
  show ?thesis
    unfolding parseExceptionReport_def foldl_append_errors w
    by (simp add: findall_tag)
qed

theorem parseExceptionReport_appends_witness:
  "parseExceptionReport example_env example_execution example_exception_report =
     example_execution
       \<lparr> status := Some ''Exception'',
         errors := [\<lparr> exc_code = Some ''InvalidParameterValue'',
                      exc_locator = Some ''identifier'',
                      exc_text = Some ''no such process'' \<rparr>,
                    \<lparr> exc_code = Some ''NoApplicableCode'', exc_locator = None,
                      exc_text = Some [] \<rparr>] \<rparr>
   \<and> status (parseExceptionReport example_env
               (example_execution\<lparr>status := Some ''ProcessFailed''\<rparr>)
               example_exception_report) = Some ''ProcessFailed''"
  using parseExceptionReport_appends
          [of example_env example_execution example_exception_report]
        parseExceptionReport_appends
          [of example_env "example_execution\<lparr>status := Some ''ProcessFailed''\<rparr>"
              example_exception_report]
  by (simp add: example_env_def example_execution_def example_exception_report_def
        WPSExecution_init_def qname_def)

subsection \<open>A response without a status\<close>

lemma findall_child_any:
  "findall el (nspath [a, ''*''] ns) =
     concat (map children (if a = ''*'' then children el
                           else filter (\<lambda>c. tag c = qname ns a) (children el)))"
  by (simp add: findall_def nspath_def matches_Tag)

lemma concat_children_empty:
  "\<forall>s \<in> set xs. P s \<longrightarrow> children s = [] \<Longrightarrow> concat (map children (filter P xs)) = []"
  by (induction xs) auto

text \<open>
  C5. When no \<^verbatim>\<open>Status\<close> child of the root has a child element (in particular when
  the root has no \<^verbatim>\<open>Status\<close> child), parsing the execute response raises: the lookup
  of the status element gives \<^verbatim>\<open>None\<close> and reading its tag is an
  \<^verbatim>\<open>AttributeError\<close>. The status is not assigned; the two attributes read off the root
  before the lookup are.
\<close>

theorem parseExecuteResponse_no_status:
  assumes "\<forall>s \<in> set (children root).
             tag s = qname WPS_NAMESPACE ''Status'' \<longrightarrow> children s = []"
  shows "parseExecuteResponse env self root =
           (Inl AttributeError,
            self\<lparr>serviceInstance := get root ''serviceInstance'',
                  statusLocation := get root ''statusLocation''\<rparr>)"
proof -
  have "findall root (nspath [''Status'', ''*''] WPS_NAMESPACE) = []"
    using concat_children_empty [OF assms] by (simp add: findall_child_any)
  then have "find_elem root (nspath [''Status'', ''*''] WPS_NAMESPACE) = None"
    by (simp add: find_elem_def)
  then show ?thesis
    by (simp add: parseExecuteResponse_def)
qed

lemma example_no_status_children:
  "\<forall>s \<in> set (children example_no_status).
     tag s = qname WPS_NAMESPACE ''Status'' \<longrightarrow> children s = []"
  by (simp add: example_no_status_def)

theorem parseExecuteResponse_no_status_witness:
  "parseExecuteResponse example_env example_execution example_no_status =
     (Inl AttributeError,
      example_execution\<lparr>serviceInstance := Some ''http://example.org/wps'',
                         statusLocation := Some ''http://example.org/status?id=7''\<rparr>)"
  using parseExecuteResponse_no_status
          [OF example_no_status_children, of example_env example_execution]
  by (simp add: example_no_status_def get_def)

subsection \<open>Inputs and outputs over several polls\<close>

lemma example_parse_first:
  "parseExecuteResponse example_env example_execution example_succeeded
     = (Inr (), example_polled)"
  by code_simp

lemma example_parse_second:
  "parseExecuteResponse example_env example_polled example_succeeded =
     (Inr (), example_polled\<lparr>dataInputs := [example_input, example_input],
        processOutputs := [example_output, example_image, example_output, example_image]\<rparr>)"
  by code_simp

text \<open>
  C9 (as the specification has it). A second parse leaves in \<open>processOutputs\<close> exactly
  the outputs of the second document. It does not: the same response, with its two
  outputs, parsed twice by a new execution leaves four outputs and two inputs.
\<close>

theorem parseExecuteResponse_twice_counterexample:
  "try_map (Output_init example_env)
     (findall example_succeeded (nspath [''ProcessOutputs'', ''Output''] WPS_NAMESPACE))
     = Inr [example_output, example_image]
   \<and> processOutputs
       (snd (parseExecuteResponse example_env
               (snd (parseExecuteResponse example_env example_execution example_succeeded))
               example_succeeded))
     = [example_output, example_image, example_output, example_image]
   \<and> dataInputs
       (snd (parseExecuteResponse example_env
               (snd (parseExecuteResponse example_env example_execution example_succeeded))
               example_succeeded))
     = [example_input, example_input]"
  by code_simp

lemma append_dataInputs_ok:
  "append_dataInputs env self els = (Inr (), self') \<Longrightarrow>
   \<exists>ins. try_map (Input_init env) els = Inr ins
      \<and> self' = self\<lparr>dataInputs := dataInputs self @ ins\<rparr>"
proof (induction els arbitrary: self)
  case Nil
  then show ?case by simp
next
  case (Cons el els)
  then show ?case by (fastforce split: sum.splits)
qed

lemma append_processOutputs_ok:
  "append_processOutputs env self els = (Inr (), self') \<Longrightarrow>
   \<exists>outs. try_map (Output_init env) els = Inr outs
      \<and> self' = self\<lparr>processOutputs := processOutputs self @ outs\<rparr>"
proof (induction els arbitrary: self)
  case Nil
  then show ?case by simp
next
  case (Cons el els)
  then show ?case by (fastforce split: sum.splits)
qed

lemma parseExceptionReport_lists:
  "dataInputs (parseExceptionReport env self root) = dataInputs self"
  "processOutputs (parseExceptionReport env self root) = processOutputs self"
  by (simp_all add: parseExceptionReport_def foldl_append_errors)

lemma parseExecuteResponse_ok_shape:
  assumes "parseExecuteResponse env self root = (Inr (), self')"
  shows "\<exists>self5 self6.
          dataInputs self5 = dataInputs self \<and> processOutputs self5 = processOutputs self
        \<and> append_dataInputs env self5
            (findall root (nspath [''DataInputs'', ''Input''] WPS_NAMESPACE)) = (Inr (), self6)
        \<and> append_processOutputs env self6
            (findall root (nspath [''ProcessOutputs'', ''Output''] WPS_NAMESPACE))
            = (Inr (), self')"
proof (cases "find_elem root (nspath [''Status'', ''*''] WPS_NAMESPACE)")
  case None
  with assms show ?thesis by (simp add: parseExecuteResponse_def)
next
  case (Some statusEl)
  show ?thesis
  proof (cases "index (split_str CHR ''}'' (tag statusEl)) 1")
    case (Inl e)
    with assms Some show ?thesis by (simp add: parseExecuteResponse_def)
  next
    case (Inr st)
    show ?thesis
    proof (cases "Process_init env (find_elem root (nspath [''Process''] WPS_NAMESPACE))")
      case (Inl e)
      with assms Some Inr show ?thesis by (simp add: parseExecuteResponse_def)
    next
      case p: (Inr p)
      define self4 where "self4 = self\<lparr>serviceInstance := get root ''serviceInstance'',
              statusLocation := get root ''statusLocation'', status := Some st, process := Some p\<rparr>"
      define self5 where "self5 =
         (case find_elem statusEl (nspath [''ExceptionReport''] (DEFAULT_OWS_NAMESPACE (ows env))) of
            Some exceptionEl \<Rightarrow> parseExceptionReport env self4 exceptionEl
          | None \<Rightarrow> self4)"
      have lists: "dataInputs self5 = dataInputs self" "processOutputs self5 = processOutputs self"
        by (simp_all add: self5_def self4_def parseExceptionReport_lists split: option.splits)
      obtain r6 self6 where a: "append_dataInputs env self5
            (findall root (nspath [''DataInputs'', ''Input''] WPS_NAMESPACE)) = (r6, self6)"
        by (cases "append_dataInputs env self5
            (findall root (nspath [''DataInputs'', ''Input''] WPS_NAMESPACE))")
      have eq: "parseExecuteResponse env self root =
          (case append_dataInputs env self5
                  (findall root (nspath [''DataInputs'', ''Input''] WPS_NAMESPACE)) of
             (Inl e, s6) \<Rightarrow> (Inl e, s6)
           | (Inr _, s6) \<Rightarrow>
               append_processOutputs env s6
                 (findall root (nspath [''ProcessOutputs'', ''Output''] WPS_NAMESPACE)))"
        using Some Inr p
        unfolding parseExecuteResponse_def self5_def self4_def Let_def WPS_NAMESPACE_def
        by simp
      from assms a have "r6 = Inr () \<and> append_processOutputs env self6
            (findall root (nspath [''ProcessOutputs'', ''Output''] WPS_NAMESPACE))
            = (Inr (), self')"
        unfolding eq by (cases r6) simp_all
      with a lists show ?thesis by blast
    qed
  qed
qed

text \<open>
  C9 (amended). A parse of an execute response that completes appends to the
  execution's \<open>dataInputs\<close> the inputs of the document and to its \<open>processOutputs\<close> the
  outputs of the document, each in document order, after the entries that were there:
  the lists are empty when the execution is created and are never emptied, so they
  accumulate over polls, and the entries of an earlier parse stay as they were.
\<close>

theorem parseExecuteResponse_accumulates:
  assumes "parseExecuteResponse env self root = (Inr (), self')"
  shows "\<exists>ins outs.
           try_map (Input_init env)
             (findall root (nspath [''DataInputs'', ''Input''] WPS_NAMESPACE)) = Inr ins
         \<and> try_map (Output_init env)
             (findall root (nspath [''ProcessOutputs'', ''Output''] WPS_NAMESPACE)) = Inr outs
         \<and> dataInputs self' = dataInputs self @ ins
         \<and> processOutputs self' = processOutputs self @ outs"
proof -
  from parseExecuteResponse_ok_shape [OF assms] obtain self5 self6
    where "dataInputs self5 = dataInputs self" "processOutputs self5 = processOutputs self"
      and ins: "append_dataInputs env self5
                  (findall root (nspath [''DataInputs'', ''Input''] WPS_NAMESPACE))
                = (Inr (), self6)"
      and outs: "append_processOutputs env self6
                   (findall root (nspath [''ProcessOutputs'', ''Output''] WPS_NAMESPACE))
                 = (Inr (), self')"
    by blast
  with append_dataInputs_ok [OF ins] append_processOutputs_ok [OF outs]
  show ?thesis by auto
qed

theorem parseExecuteResponse_accumulates_witness:
  "parseExecuteResponse example_env example_polled example_succeeded =
     (Inr (), example_polled\<lparr>dataInputs := [example_input, example_input],
        processOutputs := [example_output, example_image, example_output, example_image]\<rparr>)
   \<and> (\<exists>ins outs.
         try_map (Input_init example_env)
           (findall example_succeeded (nspath [''DataInputs'', ''Input''] WPS_NAMESPACE))
           = Inr ins
       \<and> try_map (Output_init example_env)
           (findall example_succeeded (nspath [''ProcessOutputs'', ''Output''] WPS_NAMESPACE))
           = Inr outs
       \<and> [example_input, example_input] = dataInputs example_polled @ ins
       \<and> [example_output, example_image, example_output, example_image]
           = processOutputs example_polled @ outs)"
  using parseExecuteResponse_accumulates [OF example_parse_second] example_parse_second
  by simp

subsection \<open>File names of retrieved outputs\<close>

lemma written_paths_append: "written_paths (a @ b) = written_paths a @ written_paths b"
  by (simp add: written_paths_def)

lemma write_output_paths:
  "write_output env f bytes evs = (Inr f', evs') \<Longrightarrow>
     f' = f \<and> written_paths evs' = written_paths evs @ [f]"
  "write_output env f bytes evs = (Inl e, evs') \<Longrightarrow> written_paths evs' = written_paths evs"
  by (auto simp: write_output_def written_paths_def split: if_splits)

lemma retrieve_reference_ok:
  assumes "retrieve_reference env self u fp = (Inr f, evs)"
  shows "written_paths evs = [f]
       \<and> (case fp of Some g \<Rightarrow> f = g | None \<Rightarrow> derived_filename u = Inr f)"
proof (cases "CHR ''?'' \<in> set u")
  case True
  with assms show ?thesis
    by (auto simp: retrieve_reference_def derived_filename_def Let_def written_paths_def
          split: sum.splits option.splits dest!: write_output_paths(1))
next
  case False
  with assms show ?thesis
    by (auto simp: retrieve_reference_def derived_filename_def Let_def written_paths_def
          split: sum.splits option.splits dest!: write_output_paths(1))
qed

lemma retrieve_reference_failed:
  assumes "retrieve_reference env self u fp = (Inl e, evs)"
  shows "written_paths evs = []"
proof (cases "CHR ''?'' \<in> set u")
  case True
  with assms show ?thesis
    by (auto simp: retrieve_reference_def Let_def written_paths_def
          split: sum.splits option.splits dest!: write_output_paths(2))
next
  case False
  with assms show ?thesis
    by (auto simp: retrieve_reference_def Let_def written_paths_def
          split: sum.splits option.splits dest!: write_output_paths(2))
qed

text \<open>Once the variable \<^verbatim>\<open>filepath\<close> is bound, every file is written to it.\<close>

lemma retrieve_outputs_bound:
  "retrieve_outputs env self outs (Some f) = (r, evs) \<Longrightarrow>
   (\<forall>p \<in> set (written_paths evs). p = f)
   \<and> (r = Inr () \<longrightarrow> length (written_paths evs) = length (references outs))"
proof (induction outs arbitrary: r evs)
  case Nil
  then show ?case by (simp add: written_paths_def references_def)
next
  case (Cons out outs)
  show ?case
  proof (cases "reference out")
    case None
    with Cons show ?thesis by (simp add: references_def)
  next
    case (Some u)
    obtain r1 evs1 where rr: "retrieve_reference env self u (Some f) = (r1, evs1)"
      by (cases "retrieve_reference env self u (Some f)")
    show ?thesis
    proof (cases r1)
      case (Inl e)
      with Cons.prems Some rr retrieve_reference_failed [of env self u "Some f" e evs1]
      show ?thesis by auto
    next
      case (Inr g)
      with rr retrieve_reference_ok [of env self u "Some f" g evs1]
      have g: "g = f" and w1: "written_paths evs1 = [f]" by auto
      obtain r2 evs2 where rest: "retrieve_outputs env self outs (Some f) = (r2, evs2)"
        by (cases "retrieve_outputs env self outs (Some f)")
      from Cons.prems Some rr Inr g rest have "r = r2" "evs = evs1 @ evs2" by auto
      with Cons.IH [OF rest] w1 Some show ?thesis
        by (auto simp: written_paths_append references_def)
    qed
  qed
qed

text \<open>While it is unbound, the first reference binds it.\<close>

lemma retrieve_outputs_unbound:
  "retrieve_outputs env self outs None = (r, evs) \<Longrightarrow> references outs = u1 # us \<Longrightarrow>
   (\<forall>p \<in> set (written_paths evs). derived_filename u1 = Inr p)
   \<and> (r = Inr () \<longrightarrow> length (written_paths evs) = Suc (length us))"
proof (induction outs arbitrary: r evs)
  case Nil
  then show ?case by (simp add: references_def)
next
  case (Cons out outs)
  show ?case
  proof (cases "reference out")
    case None
    with Cons show ?thesis by (simp add: references_def)
  next
    case (Some u)
    with Cons.prems(2) have u: "u = u1" and us: "references outs = us"
      by (simp_all add: references_def)
    obtain r1 evs1 where rr: "retrieve_reference env self u None = (r1, evs1)"
      by (cases "retrieve_reference env self u None")
    show ?thesis
    proof (cases r1)
      case (Inl e)
      with Cons.prems(1) Some rr retrieve_reference_failed [of env self u None e evs1]
      show ?thesis by auto
    next
      case (Inr g)
      with rr retrieve_reference_ok [of env self u None g evs1]
      have g: "derived_filename u = Inr g" and w1: "written_paths evs1 = [g]" by auto
      obtain r2 evs2 where rest: "retrieve_outputs env self outs (Some g) = (r2, evs2)"
        by (cases "retrieve_outputs env self outs (Some g)")
      from Cons.prems(1) Some rr Inr rest have "r = r2" "evs = evs1 @ evs2" by auto
      with retrieve_outputs_bound [OF rest] w1 g u us show ?thesis
        by (auto simp: written_paths_append)
    qed
  qed
qed

text \<open>
  C10. \<open>getOutput\<close> without a file path, on an execution whose outputs carry the
  references \<open>u1\<close>, \<dots> in this order: every file the call writes is written to the
  name derived from the first reference \<open>u1\<close> (what stands between the first and the
  second \<^verbatim>\<open>=\<close> of its query string when it has a \<^verbatim>\<open>?\<close>, else what follows its
  last \<^verbatim>\<open>/\<close>); and when the call returns normally it has written one file per
  reference, all to that one name, so each later output overwrites the one before it,
  whatever its own reference is.
\<close>

theorem getOutput_reuses_first_filename:
  assumes "getOutput env self None = (r, self', evs)"
    and "references (processOutputs self) = u1 # us"
  shows "(\<forall>p \<in> set (written_paths evs). derived_filename u1 = Inr p)
       \<and> (r = Inr () \<longrightarrow> (\<exists>f. derived_filename u1 = Inr f
                           \<and> written_paths evs = replicate (Suc (length us)) f))"
proof (cases "isSucceded self")
  case False
  with assms(1) show ?thesis by (auto simp: getOutput_def written_paths_def)
next
  case True
  with assms(1) have ro: "retrieve_outputs env self (processOutputs self) None = (r, evs)"
    by (auto simp: getOutput_def split: prod.splits)
  from retrieve_outputs_unbound [OF ro assms(2)]
  have all: "\<forall>p \<in> set (written_paths evs). derived_filename u1 = Inr p"
    and len: "r = Inr () \<longrightarrow> length (written_paths evs) = Suc (length us)" by auto
  show ?thesis
  proof (intro conjI impI)
    show "\<forall>p \<in> set (written_paths evs). derived_filename u1 = Inr p" by (rule all)
  next
    assume "r = Inr ()"
    with len have l: "length (written_paths evs) = Suc (length us)" by simp
    then obtain f where f: "f \<in> set (written_paths evs)"
      by (cases "written_paths evs") auto
    with all have d: "derived_filename u1 = Inr f" by blast
    with all have "\<forall>p \<in> set (written_paths evs). p = f" by auto
    then have "written_paths evs = replicate (length (written_paths evs)) f"
      by (simp add: replicate_length_same)
    with l d
    show "\<exists>f. derived_filename u1 = Inr f \<and> written_paths evs = replicate (Suc (length us)) f"
      by auto
  qed
qed

lemma example_getOutput:
  "getOutput example_env example_polled None =
     (Inr (), example_polled,
      [HttpRequest (Some ''http://example.org/RetrieveResultServlet'') (Str ''id=42OUTPUT.csv'') ''Get'',
       FileWrite ''42OUTPUT.csv'' ''bytes of http://example.org/RetrieveResultServlet'',
       HttpRequest (Some ''http://example.org/wpsoutputs/image.tif'') (Str []) ''Get'',
       FileWrite ''42OUTPUT.csv'' ''bytes of http://example.org/wpsoutputs/image.tif''])"
  by code_simp

lemma example_references:
  "references (processOutputs example_polled) =
     [''http://example.org/RetrieveResultServlet?id=42OUTPUT.csv'',
      ''http://example.org/wpsoutputs/image.tif'']"
  by code_simp

lemma example_derived:
  "derived_filename ''http://example.org/RetrieveResultServlet?id=42OUTPUT.csv'' = Inr ''42OUTPUT.csv''"
  "derived_filename ''http://example.org/wpsoutputs/image.tif'' = Inr ''image.tif''"
  by code_simp+

theorem getOutput_reuses_first_filename_witness:
  "getOutput example_env example_polled None =
     (Inr (), example_polled,
      [HttpRequest (Some ''http://example.org/RetrieveResultServlet'') (Str ''id=42OUTPUT.csv'') ''Get'',
       FileWrite ''42OUTPUT.csv'' ''bytes of http://example.org/RetrieveResultServlet'',
       HttpRequest (Some ''http://example.org/wpsoutputs/image.tif'') (Str []) ''Get'',
       FileWrite ''42OUTPUT.csv'' ''bytes of http://example.org/wpsoutputs/image.tif''])
   \<and> references (processOutputs example_polled) =
       [''http://example.org/RetrieveResultServlet?id=42OUTPUT.csv'',
        ''http://example.org/wpsoutputs/image.tif'']
   \<and> derived_filename ''http://example.org/RetrieveResultServlet?id=42OUTPUT.csv'' = Inr ''42OUTPUT.csv''
   \<and> derived_filename ''http://example.org/wpsoutputs/image.tif'' = Inr ''image.tif''
   \<and> written_paths
       [HttpRequest (Some ''http://example.org/RetrieveResultServlet'') (Str ''id=42OUTPUT.csv'') ''Get'',
        FileWrite ''42OUTPUT.csv'' ''bytes of http://example.org/RetrieveResultServlet'',
        HttpRequest (Some ''http://example.org/wpsoutputs/image.tif'') (Str []) ''Get'',
        FileWrite ''42OUTPUT.csv'' ''bytes of http://example.org/wpsoutputs/image.tif'']
      = [''42OUTPUT.csv'', ''42OUTPUT.csv'']"
  using getOutput_reuses_first_filename [OF example_getOutput example_references]
    example_getOutput example_references example_derived
  by (simp add: numeral_2_eq_2)

subsection \<open>Polling\<close>

lemma readFromUrl_get_events:
  "snd (readFromUrl env location (Dict []) ''Get'' usr pwd) = get_request env location"
  by (simp add: readFromUrl_def readFromUrl_impl_def get_request_def index_def Let_def hd_conv_nth
        split: sum.splits list.splits)

lemma get_request_no_sleep: "Sleep secs \<notin> set (get_request env location)"
  by (simp add: get_request_def split: sum.splits)

lemma after_read:
  assumes "(case read of
      (Inl e, evs) \<Rightarrow> (Inl e, self1, evs)
    | (Inr doc, evs) \<Rightarrow>
        (case parseResponse env self1 doc of
           (Inl e, self2) \<Rightarrow> (Inl e, self2, evs)
         | (Inr _, self2) \<Rightarrow>
             (case isComplete self2 of
                Inl e \<Rightarrow> (Inl e, self2, evs)
              | Inr complete \<Rightarrow>
                  (if complete = False then
                     (case sleep secs of
                        (Inl e, slept) \<Rightarrow> (Inl e, self2, evs @ slept)
                      | (Inr _, slept) \<Rightarrow> (Inr (), self2, evs @ slept))
                   else (Inr (), self2, evs))))) = (res, self', evs')"
  shows "\<exists>tail. evs' = snd read @ tail \<and> (tail = [] \<or> tail = [Sleep secs])
      \<and> (tail = [Sleep secs] \<longleftrightarrow>
            (\<exists>doc. fst read = Inr doc \<and> fst (parseResponse env self1 doc) = Inr ())
            \<and> isComplete self' = Inr False \<and> 0 \<le> secs)"
    and "self' = (case fst read of Inl e \<Rightarrow> self1 | Inr doc \<Rightarrow> snd (parseResponse env self1 doc))"
    and "res = Inr () \<longleftrightarrow>
            (\<exists>doc. fst read = Inr doc \<and> fst (parseResponse env self1 doc) = Inr ())
            \<and> (isComplete self' = Inr True \<or> isComplete self' = Inr False \<and> 0 \<le> secs)"
    and "res = (case fst read of
                  Inl e \<Rightarrow> Inl e
                | Inr doc \<Rightarrow>
                    (case fst (parseResponse env self1 doc) of
                       Inl e \<Rightarrow> Inl e
                     | Inr _ \<Rightarrow>
                         (case isComplete self' of
                            Inl e \<Rightarrow> Inl e
                          | Inr complete \<Rightarrow>
                              if complete = False \<and> secs < 0 then Inl SleepError else Inr ())))"
  using assms
  by (cases read; auto simp: sleep_def split: sum.splits prod.splits if_splits)+

lemma checkStatus_inline_eq:
  "checkStatus env self u (Some r) secs = checkStatus env self None (Some r) secs"
  by (simp add: checkStatus_def)

lemma polled_execution_poll:
  "polled_execution self u None =
     (case u of Some v \<Rightarrow> self\<lparr>statusLocation := Some v\<rparr> | None \<Rightarrow> self)"
  by (simp add: polled_execution_def poll_location_def split: option.splits)

text \<open>
  C8 (as the specification has it). The call suspends for the given number of seconds
  whenever the state after parsing is non-terminal. It does not for a negative number:
  the state after parsing is that of a started process, \<open>isComplete\<close> returns false,
  \<^verbatim>\<open>sleep\<close> is called with the number and raises, and the call ends in that error
  without having suspended.
\<close>

theorem checkStatus_negative_sleep_counterexample:
  "checkStatus example_env example_execution None (Some ''started'') (- 1)
     = (Inl SleepError, example_running, [])
   \<and> isComplete example_running = Inr False"
  by code_simp

text \<open>
  C8 (amended). A call of \<open>checkStatus\<close> that is given a response document parses it as
  it is: it makes no request (all it can do to the outside is sleep) and the \<^verbatim>\<open>url\<close>
  argument plays no part. A call that is given none sets the status location to the
  \<^verbatim>\<open>url\<close> argument when there is one, makes the GET request for that location and
  parses what the request returns. In both cases the execution the call leaves is the
  one the parse of the polled document leaves (the execution the document was to be
  parsed into, when no document could be read); the result is the first error among
  reading, parsing, \<open>isComplete\<close> and sleeping, if there is one; and the call suspends,
  for the given number of seconds and as the last thing it does, exactly when the
  document was read and parsed without error, \<open>isComplete\<close> then returns false and the
  number of seconds is not negative.
\<close>
theorem checkStatus_polls:
  assumes "checkStatus env self u response secs = (res, self', evs)"
  shows "(\<forall>r. response = Some r \<longrightarrow>
            (evs = [] \<or> evs = [Sleep secs])
          \<and> checkStatus env self None response secs = (res, self', evs))
       \<and> (response = None \<longrightarrow>
            (\<exists>tail. evs = get_request env (poll_location self u) @ tail
                  \<and> (tail = [] \<or> tail = [Sleep secs])))
       \<and> self' = (case polled_document env self u response of
                    Inl e \<Rightarrow> polled_execution self u response
                  | Inr doc \<Rightarrow> snd (parseResponse env (polled_execution self u response) doc))
       \<and> res = (case polled_document env self u response of
                  Inl e \<Rightarrow> Inl e
                | Inr doc \<Rightarrow>
                    (case fst (parseResponse env (polled_execution self u response) doc) of
                       Inl e \<Rightarrow> Inl e
                     | Inr _ \<Rightarrow>
                         (case isComplete self' of
                            Inl e \<Rightarrow> Inl e
                          | Inr complete \<Rightarrow>
                              if complete = False \<and> secs < 0 then Inl SleepError else Inr ())))
       \<and> (Sleep secs \<in> set evs \<longleftrightarrow>
            (\<exists>doc. polled_document env self u response = Inr doc
                 \<and> fst (parseResponse env (polled_execution self u response) doc) = Inr ())
            \<and> isComplete self' = Inr False \<and> 0 \<le> secs)"
proof (cases response)
  case (Some r)
  define read where "read = (readFromString env r, [] :: event list)"
  have run: "(case read of
      (Inl e, evs) \<Rightarrow> (Inl e, self, evs)
    | (Inr doc, evs) \<Rightarrow>
        (case parseResponse env self doc of
           (Inl e, self2) \<Rightarrow> (Inl e, self2, evs)
         | (Inr _, self2) \<Rightarrow>
             (case isComplete self2 of
                Inl e \<Rightarrow> (Inl e, self2, evs)
              | Inr complete \<Rightarrow>
                  (if complete = False then
                     (case sleep secs of
                        (Inl e, slept) \<Rightarrow> (Inl e, self2, evs @ slept)
                      | (Inr _, slept) \<Rightarrow> (Inr (), self2, evs @ slept))
                   else (Inr (), self2, evs))))) = (res, self', evs)"
    using assms unfolding checkStatus_def Some read_def by simp
  have doc: "fst read = polled_document env self u response"
    and ex: "polled_execution self u response = self"
    and ev: "snd read = []"
    by (simp_all add: read_def Some polled_document_def polled_execution_def readFromString_def)
  from after_read(1) [OF run] obtain tail where t: "evs = tail" "tail = [] \<or> tail = [Sleep secs]"
     "tail = [Sleep secs] \<longleftrightarrow>
            (\<exists>doc. fst read = Inr doc \<and> fst (parseResponse env self doc) = Inr ())
            \<and> isComplete self' = Inr False \<and> 0 \<le> secs"
    unfolding ev by auto
  from t have sl: "Sleep secs \<in> set evs \<longleftrightarrow>
            (\<exists>doc. fst read = Inr doc \<and> fst (parseResponse env self doc) = Inr ())
            \<and> isComplete self' = Inr False \<and> 0 \<le> secs" by auto
  from after_read(2) [OF run] after_read(4) [OF run] sl t(1,2) Some assms
       checkStatus_inline_eq [of env self u r secs]
  show ?thesis unfolding doc ex by simp
next
  case None
  define self1 where "self1 = polled_execution self u None"
  define read where "read = readFromUrl env (poll_location self u) (Dict []) ''Get'' (username self) (password self)"
  have loc: "statusLocation self1 = poll_location self u"
    and cred: "username self1 = username self" "password self1 = password self"
    by (simp_all add: self1_def polled_execution_def)
  have run: "(case read of
      (Inl e, evs) \<Rightarrow> (Inl e, self1, evs)
    | (Inr doc, evs) \<Rightarrow>
        (case parseResponse env self1 doc of
           (Inl e, self2) \<Rightarrow> (Inl e, self2, evs)
         | (Inr _, self2) \<Rightarrow>
             (case isComplete self2 of
                Inl e \<Rightarrow> (Inl e, self2, evs)
              | Inr complete \<Rightarrow>
                  (if complete = False then
                     (case sleep secs of
                        (Inl e, slept) \<Rightarrow> (Inl e, self2, evs @ slept)
                      | (Inr _, slept) \<Rightarrow> (Inr (), self2, evs @ slept))
                   else (Inr (), self2, evs))))) = (res, self', evs)"
    using assms loc cred
    unfolding checkStatus_def None read_def self1_def polled_execution_poll Let_def
    by simp
  have doc: "fst read = polled_document env self u response"
    and ex: "polled_execution self u response = self1"
    and ev: "snd read = get_request env (poll_location self u)"
    by (simp_all add: read_def None polled_document_def self1_def readFromUrl_get_events)
  from after_read(1) [OF run] obtain tail where
    t: "evs = get_request env (poll_location self u) @ tail" "tail = [] \<or> tail = [Sleep secs]"
     "tail = [Sleep secs] \<longleftrightarrow>
            (\<exists>doc. fst read = Inr doc \<and> fst (parseResponse env self1 doc) = Inr ())
            \<and> isComplete self' = Inr False \<and> 0 \<le> secs"
    unfolding ev by auto
  from t get_request_no_sleep [of secs env "poll_location self u"]
  have sl: "Sleep secs \<in> set evs \<longleftrightarrow>
            (\<exists>doc. fst read = Inr doc \<and> fst (parseResponse env self1 doc) = Inr ())
            \<and> isComplete self' = Inr False \<and> 0 \<le> secs" by auto
  from t(1,2) have "\<exists>tail. evs = get_request env (poll_location self u) @ tail
                  \<and> (tail = [] \<or> tail = [Sleep secs])" by blast
  with after_read(2) [OF run] after_read(4) [OF run] sl None
  show ?thesis unfolding doc ex by simp
qed

lemma example_check_inline:
  "checkStatus example_env example_execution (Some ''http://elsewhere.example/status'')
     (Some ''started'') 60 = (Inr (), example_running, [Sleep 60])"
  by code_simp

lemma example_check_get:
  "checkStatus example_env example_execution (Some ''http://example.org/status?id=9'') None 60 =
     (Inr (), example_running,
      [HttpRequest (Some ''http://example.org/status'') (Str ''id=9'') ''Get'', Sleep 60])"
  by code_simp

lemma example_check_down:
  "checkStatus example_env example_execution (Some ''http://down.example.org/status'') None 60 =
     (Inl TransportError,
      example_execution\<lparr>statusLocation := Some ''http://down.example.org/status''\<rparr>,
      [HttpRequest (Some ''http://down.example.org/status'') (Str []) ''Get''])"
  by code_simp

lemma example_check_done:
  "checkStatus example_env example_running None (Some ''succeeded'') 60 =
     (Inr (), example_polled, [])"
  by code_simp

lemma example_polled_document:
  "polled_document example_env example_execution (Some ''http://example.org/status?id=9'') None
     = Inr example_started"
  by code_simp

lemma example_done_document:
  "polled_document example_env example_running None (Some ''succeeded'') = Inr example_succeeded"
  "fst (parseResponse example_env example_running example_succeeded) = Inr ()"
  by code_simp+

theorem checkStatus_polls_witness:
  "checkStatus example_env example_execution (Some ''http://elsewhere.example/status'')
     (Some ''started'') 60 = (Inr (), example_running, [Sleep 60])
   \<and> checkStatus example_env example_execution None (Some ''started'') 60
       = (Inr (), example_running, [Sleep 60])
   \<and> checkStatus example_env example_execution (Some ''http://example.org/status?id=9'') None 60 =
       (Inr (), example_running,
        [HttpRequest (Some ''http://example.org/status'') (Str ''id=9'') ''Get'', Sleep 60])
   \<and> polled_document example_env example_execution (Some ''http://example.org/status?id=9'') None
       = Inr example_started
   \<and> example_running
       = snd (parseResponse example_env
                (example_execution\<lparr>statusLocation := Some ''http://example.org/status?id=9''\<rparr>)
                example_started)
   \<and> isComplete example_running = Inr False
   \<and> checkStatus example_env example_execution (Some ''http://down.example.org/status'') None 60 =
       (Inl TransportError,
        example_execution\<lparr>statusLocation := Some ''http://down.example.org/status''\<rparr>,
        [HttpRequest (Some ''http://down.example.org/status'') (Str []) ''Get''])
   \<and> checkStatus example_env example_running None (Some ''succeeded'') 60 =
       (Inr (), example_polled, [])
   \<and> isComplete example_polled \<noteq> Inr False"
proof -
  note inline = checkStatus_polls [OF example_check_inline]
  note polled = checkStatus_polls [OF example_check_get]
  note finished = checkStatus_polls [OF example_check_done]
  from inline [THEN conjunct1, rule_format, of "''started''"]
  have a: "checkStatus example_env example_execution None (Some ''started'') 60
             = (Inr (), example_running, [Sleep 60])"
    by simp
  from polled [THEN conjunct2, THEN conjunct2, THEN conjunct1]
  have b: "example_running
       = snd (parseResponse example_env
                (example_execution\<lparr>statusLocation := Some ''http://example.org/status?id=9''\<rparr>)
                example_started)"
    by (simp add: example_polled_document polled_execution_def poll_location_def)
  from polled [THEN conjunct2, THEN conjunct2, THEN conjunct2, THEN conjunct2]
  have c: "isComplete example_running = Inr False" by simp
  from finished [THEN conjunct2, THEN conjunct2, THEN conjunct2, THEN conjunct2]
  have d: "isComplete example_polled \<noteq> Inr False"
    by (simp add: example_done_document polled_execution_def)
  from a b c d example_check_inline example_check_get example_check_down example_check_done
    example_polled_document
  show ?thesis by (intro conjI)
qed

subsection \<open>Requests\<close>

lemma nspath_eval_wps: "nspath_eval ''wps'' name (namespaces c) = qname WPS_NAMESPACE name"
  by (simp add: nspath_eval_def namespaces_def)

lemma nspath_eval_ows:
  "nspath_eval ''ows'' name (namespaces c) = qname (DEFAULT_OWS_NAMESPACE c) name"
  by (simp add: nspath_eval_def namespaces_def)

lemma last_qname: "name \<noteq> [] \<Longrightarrow> last (qname ns name) = last name"
  by (simp add: qname_def)

lemma qname_neq: "x \<noteq> [] \<Longrightarrow> y \<noteq> [] \<Longrightarrow> last x \<noteq> last y \<Longrightarrow> qname a x \<noteq> qname b y"
  using last_qname by metis

lemma qname_same_ns: "qname ns x = qname ns y \<longleftrightarrow> x = y"
  by (simp add: qname_def)

lemma findall_child_child:
  "a \<noteq> ''*'' \<Longrightarrow> b \<noteq> ''*'' \<Longrightarrow>
   findall el (nspath [a, b] ns) =
     concat (map (\<lambda>x. filter (\<lambda>c. tag c = qname ns b) (children x))
               (filter (\<lambda>c. tag c = qname ns a) (children el)))"
  by (simp add: findall_def nspath_def matches_Tag)

lemma try_map_literals:
  "try_map (inputElement_of c) (map (\<lambda>p. (fst p, Literal (snd p))) pairs)
     = Inr (map (literal_input c) pairs)"
  by (induction pairs)
     (simp_all add: inputElement_of_def literal_input_def nspath_eval_wps nspath_eval_ows)

lemma buildRequest_literals:
  "buildRequest c ident (map (\<lambda>p. (fst p, Literal (snd p))) pairs) output =
     Inr (Element (qname WPS_NAMESPACE ''Execute'')
            [(''service'', ''WPS''),
             (''version'', WPS_DEFAULT_VERSION),
             (''xmlns:ows'', DEFAULT_OWS_NAMESPACE c),
             (''xmlns:xlink'', XLINK_NAMESPACE c),
             (qname (XSI_NAMESPACE c) ''schemaLocation'',
              WPS_NAMESPACE @ '' '' @ WPS_SCHEMA_LOCATION)]
            None
            ([Element (qname (DEFAULT_OWS_NAMESPACE c) ''Identifier'') [] (Some ident) [],
              Element (qname WPS_NAMESPACE ''DataInputs'') [] None (map (literal_input c) pairs)]
             @ (case output of None \<Rightarrow> [] | Some out \<Rightarrow> [response_form c out])))"
  unfolding buildRequest_def try_map_literals
  by (simp add: nspath_eval_wps nspath_eval_ows response_form_def nspath_eval_def namespaces_def
        split: option.splits)

lemma filter_literal_inputs:
  "filter (\<lambda>el. tag el = qname WPS_NAMESPACE ''Input'') (map (literal_input c) pairs)
     = map (literal_input c) pairs"
  by (induction pairs) (simp_all add: literal_input_def)

lemma read_literal_input:
  "parseText (find_elem (literal_input c p) (nspath [''Identifier''] (DEFAULT_OWS_NAMESPACE c)))
     = Some (fst p)"
  "parseText (find_elem (literal_input c p) (nspath [''Data'', ''LiteralData''] WPS_NAMESPACE))
     = Some (snd p)"
  by (simp_all add: find_elem_def findall_tag findall_child_child literal_input_def parseText_def
        qname_neq)

text \<open>
  C6. For every process identifier, every list of pairs of strings and every output
  identifier or none, \<open>buildRequest\<close> returns a document; read back, it gives the same
  identifier and the same names and values in the same order; its \<^verbatim>\<open>Input\<close> elements
  are, in the order of the pairs, one per pair, holding the name as \<^verbatim>\<open>Identifier\<close>
  and the value as the text of \<^verbatim>\<open>Data/LiteralData\<close>. The document is read back as
  the tree that was built; writing it out as text and parsing that text is the XML
  library's part.
\<close>

theorem buildRequest_roundtrip:
  "\<exists>root. buildRequest c ident (map (\<lambda>p. (fst p, Literal (snd p))) pairs) output = Inr root
        \<and> read_identifier c root = Some ident
        \<and> read_inputs c root = map (\<lambda>p. (Some (fst p), Some (snd p))) pairs
        \<and> findall root (nspath [''DataInputs'', ''Input''] WPS_NAMESPACE)
            = map (literal_input c) pairs"
proof -
  let ?root = "Element (qname WPS_NAMESPACE ''Execute'')
            [(''service'', ''WPS''),
             (''version'', WPS_DEFAULT_VERSION),
             (''xmlns:ows'', DEFAULT_OWS_NAMESPACE c),
             (''xmlns:xlink'', XLINK_NAMESPACE c),
             (qname (XSI_NAMESPACE c) ''schemaLocation'',
              WPS_NAMESPACE @ '' '' @ WPS_SCHEMA_LOCATION)]
            None
            ([Element (qname (DEFAULT_OWS_NAMESPACE c) ''Identifier'') [] (Some ident) [],
              Element (qname WPS_NAMESPACE ''DataInputs'') [] None (map (literal_input c) pairs)]
             @ (case output of None \<Rightarrow> [] | Some out \<Rightarrow> [response_form c out]))"
  have ident: "read_identifier c ?root = Some ident"
    by (simp add: read_identifier_def find_elem_def findall_tag parseText_def)
  have inputs: "findall ?root (nspath [''DataInputs'', ''Input''] WPS_NAMESPACE)
                  = map (literal_input c) pairs"
    by (cases "output")
       (simp_all add: findall_child_child qname_neq qname_same_ns response_form_def
          filter_literal_inputs)
  have "read_inputs c ?root = map (\<lambda>p. (Some (fst p), Some (snd p))) pairs"
    unfolding read_inputs_def inputs by (simp add: read_literal_input)
  with ident inputs buildRequest_literals [of c ident pairs "output"] show ?thesis
    by blast
qed

theorem buildRequest_roundtrip_witness:
  "\<exists>root. buildRequest (ows example_env) ''EchoProcess''
             [(''A'', Literal ''x''), (''B'', Literal ''y'')] None = Inr root
        \<and> read_identifier (ows example_env) root = Some ''EchoProcess''
        \<and> read_inputs (ows example_env) root = [(Some ''A'', Some ''x''), (Some ''B'', Some ''y'')]"
proof -
  from buildRequest_roundtrip
         [of "ows example_env" "''EchoProcess''" "[(''A'', ''x''), (''B'', ''y'')]" None]
  obtain root where
    "buildRequest (ows example_env) ''EchoProcess''
       [(''A'', Literal ''x''), (''B'', Literal ''y'')] None = Inr root"
    "read_identifier (ows example_env) root = Some ''EchoProcess''"
    "read_inputs (ows example_env) root = [(Some ''A'', Some ''x''), (Some ''B'', Some ''y'')]"
    by auto
  then show ?thesis by (intro exI [of _ root]) simp
qed

lemma elements_self: "elements el = el # concat (map elements (children el))"
  by (cases el) simp

lemma literal_inputs_no_tag:
  "t \<noteq> qname WPS_NAMESPACE ''Input'' \<Longrightarrow> t \<noteq> qname (DEFAULT_OWS_NAMESPACE c) ''Identifier'' \<Longrightarrow>
   t \<noteq> qname WPS_NAMESPACE ''Data'' \<Longrightarrow> t \<noteq> qname WPS_NAMESPACE ''LiteralData'' \<Longrightarrow>
   filter (\<lambda>el. tag el = t) (concat (map (elements \<circ> literal_input c) pairs)) = []"
  by (induction pairs) (simp_all add: literal_input_def)

lemma literal_inputs_LiteralData:
  "filter (\<lambda>el. tag el = qname WPS_NAMESPACE ''LiteralData'')
     (concat (map (elements \<circ> literal_input c) pairs))
   = map (\<lambda>p. Element (qname WPS_NAMESPACE ''LiteralData'') [] (Some (snd p)) []) pairs"
  by (induction pairs) (simp_all add: literal_input_def qname_neq qname_same_ns)

lemma buildRequest_children:
  assumes "buildRequest c ident inputs output = Inr root"
  shows "\<exists>inputElements.
           children root =
             [Element (qname (DEFAULT_OWS_NAMESPACE c) ''Identifier'') [] (Some ident) [],
              Element (qname WPS_NAMESPACE ''DataInputs'') [] None inputElements]
             @ (case output of None \<Rightarrow> [] | Some out \<Rightarrow> [response_form c out])"
  using assms
  by (auto simp: buildRequest_def nspath_eval_wps nspath_eval_ows response_form_def
        split: sum.splits option.splits)

lemma buildRequest_built_form:
  assumes "buildRequest c ident inputs output = Inr root"
  shows "filter (\<lambda>el. tag el = qname WPS_NAMESPACE ''ResponseForm'') (children root)
           = (case output of None \<Rightarrow> [] | Some out \<Rightarrow> [response_form c out])
       \<and> ((\<exists>el \<in> set (children root). tag el = qname WPS_NAMESPACE ''ResponseForm'')
            \<longleftrightarrow> output \<noteq> None)
       \<and> (\<forall>pairs. inputs = map (\<lambda>p. (fst p, Literal (snd p))) pairs \<longrightarrow>
             filter (\<lambda>el. tag el = qname WPS_NAMESPACE ''ResponseForm'') (elements root)
               = (case output of None \<Rightarrow> [] | Some out \<Rightarrow> [response_form c out])
           \<and> filter (\<lambda>el. tag el = qname WPS_NAMESPACE ''LiteralData'') (elements root)
               = map (\<lambda>p. Element (qname WPS_NAMESPACE ''LiteralData'') [] (Some (snd p)) [])
                   pairs)"
proof (intro conjI allI impI)
  from buildRequest_children [OF assms] obtain inputElements where
    ch: "children root =
             [Element (qname (DEFAULT_OWS_NAMESPACE c) ''Identifier'') [] (Some ident) [],
              Element (qname WPS_NAMESPACE ''DataInputs'') [] None inputElements]
             @ (case output of None \<Rightarrow> [] | Some out \<Rightarrow> [response_form c out])"
    by blast
  show top: "filter (\<lambda>el. tag el = qname WPS_NAMESPACE ''ResponseForm'') (children root)
           = (case output of None \<Rightarrow> [] | Some out \<Rightarrow> [response_form c out])"
    unfolding ch by (cases "output") (simp_all add: qname_neq qname_same_ns response_form_def)
  have "(\<exists>el \<in> set (children root). tag el = qname WPS_NAMESPACE ''ResponseForm'')
          \<longleftrightarrow> filter (\<lambda>el. tag el = qname WPS_NAMESPACE ''ResponseForm'') (children root) \<noteq> []"
    by (simp add: filter_empty_conv)
  also have "\<dots> \<longleftrightarrow> output \<noteq> None"
    unfolding top by (cases "output") simp_all
  finally show "(\<exists>el \<in> set (children root). tag el = qname WPS_NAMESPACE ''ResponseForm'')
          \<longleftrightarrow> output \<noteq> None" .
next
  fix pairs
  assume "inputs = map (\<lambda>p. (fst p, Literal (snd p))) pairs"
  with assms buildRequest_literals [of c ident pairs "output"]
  have root: "root = Element (qname WPS_NAMESPACE ''Execute'')
            [(''service'', ''WPS''),
             (''version'', WPS_DEFAULT_VERSION),
             (''xmlns:ows'', DEFAULT_OWS_NAMESPACE c),
             (''xmlns:xlink'', XLINK_NAMESPACE c),
             (qname (XSI_NAMESPACE c) ''schemaLocation'',
              WPS_NAMESPACE @ '' '' @ WPS_SCHEMA_LOCATION)]
            None
            ([Element (qname (DEFAULT_OWS_NAMESPACE c) ''Identifier'') [] (Some ident) [],
              Element (qname WPS_NAMESPACE ''DataInputs'') [] None (map (literal_input c) pairs)]
             @ (case output of None \<Rightarrow> [] | Some out \<Rightarrow> [response_form c out]))"
    by simp
  show "filter (\<lambda>el. tag el = qname WPS_NAMESPACE ''ResponseForm'') (elements root)
               = (case output of None \<Rightarrow> [] | Some out \<Rightarrow> [response_form c out])"
    unfolding root
    by (cases "output")
       (simp_all add: literal_inputs_no_tag qname_neq qname_same_ns response_form_def)
  show "filter (\<lambda>el. tag el = qname WPS_NAMESPACE ''LiteralData'') (elements root)
               = map (\<lambda>p. Element (qname WPS_NAMESPACE ''LiteralData'') [] (Some (snd p)) [])
                   pairs"
    unfolding root
    by (cases "output")
       (simp_all add: literal_inputs_LiteralData qname_neq qname_same_ns response_form_def)
qed

lemma try_map_ok_iff:
  "(\<exists>ys. try_map f xs = Inr ys) \<longleftrightarrow> (\<forall>x \<in> set xs. \<exists>y. f x = Inr y)"
  by (induction xs) (auto split: sum.splits)

lemma inputElement_of_ok_iff:
  "(\<exists>el. inputElement_of c input = Inr el) \<longleftrightarrow> (\<forall>e. snd input \<noteq> Object (Inl e))"
  by (cases "snd input")
     (auto simp: inputElement_of_def Let_def split: sum.splits input_value.splits)

lemma buildRequest_built_iff:
  "(\<exists>root. buildRequest c ident inputs output = Inr root)
     \<longleftrightarrow> (\<forall>input \<in> set inputs. \<forall>e. snd input \<noteq> Object (Inl e))"
proof -
  have "(\<exists>root. buildRequest c ident inputs output = Inr root)
          \<longleftrightarrow> (\<exists>els. try_map (inputElement_of c) inputs = Inr els)"
    by (auto simp: buildRequest_def split: sum.splits)
  then show ?thesis
    by (simp add: try_map_ok_iff inputElement_of_ok_iff)
qed

text \<open>
  C7. \<open>buildRequest\<close> returns a document exactly when every input object renders its
  XML (always, when the input values are strings), with or without an output
  identifier. In a document it returns, the root has a \<^verbatim>\<open>ResponseForm\<close> child exactly
  when an output identifier was given, and then exactly one: a \<^verbatim>\<open>ResponseDocument\<close>
  with \<^verbatim>\<open>storeExecuteResponse="true"\<close> and \<^verbatim>\<open>status="true"\<close> holding one \<^verbatim>\<open>Output\<close>
  with \<^verbatim>\<open>asReference="true"\<close> whose \<^verbatim>\<open>Identifier\<close> is the output identifier. When all
  input values are strings the same holds of the whole document, not only of the root's
  children, and the \<^verbatim>\<open>LiteralData\<close> elements of the document are, in order, one per
  input with the value as text. (An input object puts the XML of its own choice under
  its \<^verbatim>\<open>Input\<close> element.)
\<close>

theorem buildRequest_response_form:
  "((\<exists>root. buildRequest c ident inputs output = Inr root)
      \<longleftrightarrow> (\<forall>input \<in> set inputs. \<forall>e. snd input \<noteq> Object (Inl e)))
   \<and> (\<forall>root. buildRequest c ident inputs output = Inr root \<longrightarrow>
         filter (\<lambda>el. tag el = qname WPS_NAMESPACE ''ResponseForm'') (children root)
           = (case output of None \<Rightarrow> [] | Some out \<Rightarrow> [response_form c out])
       \<and> ((\<exists>el \<in> set (children root). tag el = qname WPS_NAMESPACE ''ResponseForm'')
            \<longleftrightarrow> output \<noteq> None)
       \<and> (\<forall>pairs. inputs = map (\<lambda>p. (fst p, Literal (snd p))) pairs \<longrightarrow>
             filter (\<lambda>el. tag el = qname WPS_NAMESPACE ''ResponseForm'') (elements root)
               = (case output of None \<Rightarrow> [] | Some out \<Rightarrow> [response_form c out])
           \<and> filter (\<lambda>el. tag el = qname WPS_NAMESPACE ''LiteralData'') (elements root)
               = map (\<lambda>p. Element (qname WPS_NAMESPACE ''LiteralData'') [] (Some (snd p)) [])
                   pairs))"
  using buildRequest_built_iff [of c ident inputs "output"] buildRequest_built_form [of c ident inputs "output"]
  by blast

lemma example_echo_build:
  "buildRequest (ows example_env) ''EchoProcess'' [(''message'', Literal ''hello'')] None
     = Inr example_echo_request"
  by code_simp

lemma example_echo_pairs:
  "[(''message'', Literal ''hello'')]
     = map (\<lambda>p. (fst p, Literal (snd p))) [(''message'', ''hello'')]"
  by simp

lemma example_reference_build:
  "buildRequest (ows example_env) ''EchoProcess''
     [(''FEATURE_COLLECTION'', Object (Inr example_reference))] (Some ''OUTPUT'')
     = Inr example_reference_request"
  by code_simp

lemma example_response_form:
  "response_form (ows example_env) ''OUTPUT'' =
     Element ''{http://www.opengis.net/wps/1.0.0}ResponseForm'' [] None
       [Element ''{http://www.opengis.net/wps/1.0.0}ResponseDocument''
          [(''storeExecuteResponse'', ''true''), (''status'', ''true'')] None
          [Element ''{http://www.opengis.net/wps/1.0.0}Output''
             [(''asReference'', ''true'')] None
             [Element ''{http://www.opengis.net/ows/1.1}Identifier'' []
                (Some ''OUTPUT'') []]]]"
  by code_simp

lemma example_objects_render:
  "\<forall>input \<in> set [(''FEATURE_COLLECTION'', Object (Inr example_reference))].
     \<forall>e. snd input \<noteq> Object (Inl e)"
  by simp

theorem buildRequest_response_form_witness:
  "buildRequest (ows example_env) ''EchoProcess'' [(''message'', Literal ''hello'')] None
     = Inr example_echo_request
   \<and> filter (\<lambda>el. tag el = qname WPS_NAMESPACE ''ResponseForm'') (elements example_echo_request)
       = []
   \<and> filter (\<lambda>el. tag el = qname WPS_NAMESPACE ''LiteralData'') (elements example_echo_request)
       = [Element (qname WPS_NAMESPACE ''LiteralData'') [] (Some ''hello'') []]
   \<and> (\<exists>root. buildRequest (ows example_env) ''EchoProcess''
                [(''FEATURE_COLLECTION'', Object (Inr example_reference))] (Some ''OUTPUT'')
                = Inr root)
   \<and> buildRequest (ows example_env) ''EchoProcess''
        [(''FEATURE_COLLECTION'', Object (Inr example_reference))] (Some ''OUTPUT'')
       = Inr example_reference_request
   \<and> filter (\<lambda>el. tag el = qname WPS_NAMESPACE ''ResponseForm'')
        (children example_reference_request)
       = [Element ''{http://www.opengis.net/wps/1.0.0}ResponseForm'' [] None
            [Element ''{http://www.opengis.net/wps/1.0.0}ResponseDocument''
               [(''storeExecuteResponse'', ''true''), (''status'', ''true'')] None
               [Element ''{http://www.opengis.net/wps/1.0.0}Output''
                  [(''asReference'', ''true'')] None
                  [Element ''{http://www.opengis.net/ows/1.1}Identifier'' []
                     (Some ''OUTPUT'') []]]]]"
proof -
  note echo = buildRequest_response_form
                [of "ows example_env" "''EchoProcess''" "[(''message'', Literal ''hello'')]" None]
  note lit = echo [THEN conjunct2, rule_format, OF example_echo_build, THEN conjunct2,
                   THEN conjunct2, rule_format, OF example_echo_pairs]
  from lit
  have a: "filter (\<lambda>el. tag el = qname WPS_NAMESPACE ''ResponseForm'')
             (elements example_echo_request) = []"
    and b: "filter (\<lambda>el. tag el = qname WPS_NAMESPACE ''LiteralData'')
              (elements example_echo_request)
            = [Element (qname WPS_NAMESPACE ''LiteralData'') [] (Some ''hello'') []]"
    by simp_all
  note ref = buildRequest_response_form
               [of "ows example_env" "''EchoProcess''"
                   "[(''FEATURE_COLLECTION'', Object (Inr example_reference))]" "Some ''OUTPUT''"]
  from ref [THEN conjunct1] example_objects_render
  have c: "\<exists>root. buildRequest (ows example_env) ''EchoProcess''
                [(''FEATURE_COLLECTION'', Object (Inr example_reference))] (Some ''OUTPUT'')
                = Inr root"
    by (rule iffD2)
  from ref [THEN conjunct2, rule_format, OF example_reference_build, THEN conjunct1]
  have d: "filter (\<lambda>el. tag el = qname WPS_NAMESPACE ''ResponseForm'')
        (children example_reference_request)
       = [Element ''{http://www.opengis.net/wps/1.0.0}ResponseForm'' [] None
            [Element ''{http://www.opengis.net/wps/1.0.0}ResponseDocument''
               [(''storeExecuteResponse'', ''true''), (''status'', ''true'')] None
               [Element ''{http://www.opengis.net/wps/1.0.0}Output''
                  [(''asReference'', ''true'')] None
                  [Element ''{http://www.opengis.net/ows/1.1}Identifier'' []
                     (Some ''OUTPUT'') []]]]]"
    by (simp add: example_response_form)
  from a b c d example_echo_build example_reference_build show ?thesis by (intro conjI)
qed

end
